theory Spec2Isabelle
  imports Complex_Main "HOL-Library.Monad_Syntax" "HOL-Library.Multiset"
begin

section \<open>Vectors and configuration\<close>

text \<open>
  The simulation of \<^verbatim>\<open>src/kernel.cu\<close> computes on \<^verbatim>\<open>glm::vec3\<close>, three
  \<^verbatim>\<open>float\<close> components. The model takes the components as real numbers: the
  statements below are about the arithmetic the kernels spell out, evaluated exactly.
  Rounding is modelled for one kernel, the brute-force velocity kernel, in the section on
  binary32 below.
\<close>

datatype vec3 = Vec3 (vx: real) (vy: real) (vz: real)

instantiation vec3 :: ab_group_add
begin

definition zero_vec3 :: vec3 where
  "zero_vec3 = Vec3 0 0 0"

definition plus_vec3 :: "vec3 \<Rightarrow> vec3 \<Rightarrow> vec3" where
  "plus_vec3 a b = Vec3 (vx a + vx b) (vy a + vy b) (vz a + vz b)"

definition uminus_vec3 :: "vec3 \<Rightarrow> vec3" where
  "uminus_vec3 a = Vec3 (- vx a) (- vy a) (- vz a)"

definition minus_vec3 :: "vec3 \<Rightarrow> vec3 \<Rightarrow> vec3" where
  "minus_vec3 a b = Vec3 (vx a - vx b) (vy a - vy b) (vz a - vz b)"

instance
  by standard
    (simp_all add: zero_vec3_def plus_vec3_def uminus_vec3_def minus_vec3_def vec3.expand)

end

text \<open>\<^verbatim>\<open>v * s\<close> and \<^verbatim>\<open>v / s\<close> of a vector and a scalar, componentwise.\<close>

definition vscale :: "vec3 \<Rightarrow> real \<Rightarrow> vec3" where
  "vscale v s = Vec3 (vx v * s) (vy v * s) (vz v * s)"

definition vdiv :: "vec3 \<Rightarrow> real \<Rightarrow> vec3" where
  "vdiv v s = Vec3 (vx v / s) (vy v / s) (vz v / s)"

definition glm_dot :: "vec3 \<Rightarrow> vec3 \<Rightarrow> real" where
  "glm_dot a b = vx a * vx b + vy a * vy b + vz a * vz b"

definition glm_length :: "vec3 \<Rightarrow> real" where
  "glm_length v = sqrt (glm_dot v v)"

definition glm_distance :: "vec3 \<Rightarrow> vec3 \<Rightarrow> real" where
  "glm_distance p0 p1 = glm_length (p1 - p0)"

text \<open>
  \<^verbatim>\<open>glm::normalize(v)\<close> is \<^verbatim>\<open>v * inversesqrt(dot(v, v))\<close>. Over the reals the
  result for a vector other than zero has length exactly 1; \<open>glm_normalize32\<close> below
  is the same function with every operation rounded to binary32, where the length of the
  result can differ from 1.
\<close>

definition glm_normalize :: "vec3 \<Rightarrow> vec3" where
  "glm_normalize v = vscale v (1 / sqrt (glm_dot v v))"

text \<open>The \<^verbatim>\<open>#define\<close>s of the configuration block.\<close>

definition blockSize :: nat where "blockSize = 128"

definition rule1Distance :: real where "rule1Distance = 5"
definition rule2Distance :: real where "rule2Distance = 3"
definition rule3Distance :: real where "rule3Distance = 5"

definition rule1Scale :: real where "rule1Scale = 1 / 100"
definition rule2Scale :: real where "rule2Scale = 1 / 10"
definition rule3Scale :: real where "rule3Scale = 1 / 10"

definition maxSpeed :: real where "maxSpeed = 1"

definition scene_scale :: real where "scene_scale = 100"

section \<open>Kernel launches\<close>

text \<open>
  A launch \<^verbatim>\<open>kern <<< blocks, blockSize >>> (...)\<close> runs one thread per index
  \<open>0 \<dots> blocks * blockSize - 1\<close>. Within each kernel of this file a thread writes only
  locations that no other thread of the same launch reads or writes, so the launch is
  modelled as the threads run one after the other in index order. The step functions
  launch every kernel with \<open>(numObjects + blockSize - 1) / blockSize\<close> blocks.
\<close>

definition blocksPerGrid :: "nat \<Rightarrow> nat" where
  "blocksPerGrid N = (N + blockSize - 1) div blockSize"

definition launch :: "nat \<Rightarrow> (nat \<Rightarrow> 'm \<Rightarrow> 'm) \<Rightarrow> 'm \<Rightarrow> 'm" where
  "launch blocks thread mem = fold thread [0..<blocks * blockSize] mem"

section \<open>Integrator\<close>

text \<open>
  \<^verbatim>\<open>kernUpdatePos\<close>: one thread per boid; the thread of slot \<open>index\<close> reads and writes
  \<open>pos[index]\<close> only. The three lower wraps run before the three upper wraps.
\<close>

definition wrapPos :: "vec3 \<Rightarrow> vec3" where
  "wrapPos p =
     (let x1 = (if vx p < - scene_scale then scene_scale else vx p);
          y1 = (if vy p < - scene_scale then scene_scale else vy p);
          z1 = (if vz p < - scene_scale then scene_scale else vz p);
          x2 = (if x1 > scene_scale then - scene_scale else x1);
          y2 = (if y1 > scene_scale then - scene_scale else y1);
          z2 = (if z1 > scene_scale then - scene_scale else z1)
      in Vec3 x2 y2 z2)"

definition kernUpdatePos_thread :: "nat \<Rightarrow> real \<Rightarrow> vec3 list \<Rightarrow> nat \<Rightarrow> vec3 list \<Rightarrow> vec3 list" where
  "kernUpdatePos_thread N dt vel index pos =
     (if index \<ge> N then pos
      else let thisPos = pos ! index + vscale (vel ! index) dt
           in pos[index := wrapPos thisPos])"

definition kernUpdatePos :: "nat \<Rightarrow> real \<Rightarrow> vec3 list \<Rightarrow> vec3 list \<Rightarrow> vec3 list" where
  "kernUpdatePos N dt pos vel = launch (blocksPerGrid N) (kernUpdatePos_thread N dt vel) pos"

section \<open>Flocking rules\<close>

text \<open>
  The five accumulators that \<^verbatim>\<open>computeVelocityChange\<close> and the two grid kernels declare
  before their loops: \<^verbatim>\<open>center\<close>, \<^verbatim>\<open>numRule1\<close>, \<^verbatim>\<open>c\<close> (here \<open>sep\<close>),
  \<^verbatim>\<open>perceived_velocity\<close> and \<^verbatim>\<open>numRule3\<close>.
\<close>

record rules =
  center :: vec3
  numRule1 :: int
  sep :: vec3
  perceived_velocity :: vec3
  numRule3 :: int

definition rules0 :: rules where
  "rules0 = \<lparr>center = 0, numRule1 = 0, sep = 0, perceived_velocity = 0, numRule3 = 0\<rparr>"

text \<open>
  The body of the neighbour loop for one other boid at \<open>posb\<close> with velocity \<open>velb\<close>,
  seen from the boid at \<open>self\<close>: the three distance tests in the source's order.
\<close>

definition ruleBody :: "vec3 \<Rightarrow> vec3 \<Rightarrow> vec3 \<Rightarrow> rules \<Rightarrow> rules" where
  "ruleBody self posb velb a =
     (let distance = glm_distance self posb;
          a1 = (if distance < rule1Distance
                then a\<lparr>center := center a + posb, numRule1 := numRule1 a + 1\<rparr> else a);
          a2 = (if distance < rule2Distance
                then a1\<lparr>sep := sep a1 - (posb - self)\<rparr> else a1)
      in if distance < rule3Distance
         then a2\<lparr>perceived_velocity := perceived_velocity a2 + velb,
                  numRule3 := numRule3 a2 + 1\<rparr>
         else a2)"

text \<open>The code after the loop: \<^verbatim>\<open>center + c + perceived_velocity\<close>, each scaled.\<close>

definition ruleResult :: "vec3 \<Rightarrow> rules \<Rightarrow> vec3" where
  "ruleResult self a =
     (let center1 = (if numRule1 a \<noteq> 0
                     then vscale (vdiv (center a) (real_of_int (numRule1 a)) - self) rule1Scale
                     else center a);
          c1 = vscale (sep a) rule2Scale;
          pv1 = (if numRule3 a \<noteq> 0
                 then vscale (vdiv (perceived_velocity a) (real_of_int (numRule3 a))) rule3Scale
                 else perceived_velocity a)
      in center1 + c1 + pv1)"

definition computeVelocityChange :: "nat \<Rightarrow> nat \<Rightarrow> vec3 list \<Rightarrow> vec3 list \<Rightarrow> vec3" where
  "computeVelocityChange N iSelf pos vel =
     ruleResult (pos ! iSelf)
       (fold (\<lambda>i a. if iSelf \<noteq> i then ruleBody (pos ! iSelf) (pos ! i) (vel ! i) a else a)
          [0..<N] rules0)"

text \<open>
  The speed limit and the diagnostic that follows it in all three velocity kernels: the
  vector is rescaled first, and the test that guards \<^verbatim>\<open>printf\<close> reads the rescaled
  vector. The result is the vector stored and whether the message is printed.
\<close>

definition limitSpeed :: "vec3 \<Rightarrow> vec3 \<times> bool" where
  "limitSpeed newVector =
     (let v = (if glm_length newVector > maxSpeed
               then vscale (glm_normalize newVector) maxSpeed else newVector)
      in (v, vx v > maxSpeed \<or> vy v > maxSpeed \<or> vz v > maxSpeed))"

definition speedMessage :: string where
  "speedMessage = ''Speed limit exceeded.'' @ [CHR 0x0A]"

definition report :: "bool \<Rightarrow> string list \<Rightarrow> string list" where
  "report warn out = (if warn then out @ [speedMessage] else out)"

text \<open>
  \<^verbatim>\<open>kernUpdateVelocityBruteForce\<close>: thread \<open>i\<close> writes \<open>vel2[i]\<close>; the memory a launch
  changes is \<open>vel2\<close> and the text printed so far.
\<close>

definition kernUpdateVelocityBruteForce_thread ::
  "nat \<Rightarrow> vec3 list \<Rightarrow> vec3 list \<Rightarrow> nat \<Rightarrow> vec3 list \<times> string list \<Rightarrow> vec3 list \<times> string list" where
  "kernUpdateVelocityBruteForce_thread N pos vel1 i mem =
     (if i \<ge> N then mem
      else let newVector = computeVelocityChange N i pos vel1 + vel1 ! i;
               lim = limitSpeed newVector
           in ((fst mem)[i := fst lim], report (snd lim) (snd mem)))"

definition kernUpdateVelocityBruteForce ::
  "nat \<Rightarrow> vec3 list \<Rightarrow> vec3 list \<Rightarrow> vec3 list \<times> string list \<Rightarrow> vec3 list \<times> string list" where
  "kernUpdateVelocityBruteForce N pos vel1 mem =
     launch (blocksPerGrid N) (kernUpdateVelocityBruteForce_thread N pos vel1) mem"

section \<open>Uniform grid\<close>

text \<open>
  \<^verbatim>\<open>glm::ivec3\<close> and the \<^verbatim>\<open>int\<close> labels are integers without bound here; every
  label of the lattice is below \<open>22 * 22 * 22\<close>, far from the limits of 32 bits.
\<close>

datatype ivec3 = IVec3 (ix: int) (iy: int) (iz: int)

text \<open>The conversion of a \<^verbatim>\<open>float\<close> to an \<^verbatim>\<open>int\<close> drops the fraction (towards zero).\<close>

definition trunc :: "real \<Rightarrow> int" where
  "trunc r = (if 0 \<le> r then \<lfloor>r\<rfloor> else \<lceil>r\<rceil>)"

definition to_ivec3 :: "vec3 \<Rightarrow> ivec3" where
  "to_ivec3 v = IVec3 (trunc (vx v)) (trunc (vy v)) (trunc (vz v))"

definition to_vec3 :: "ivec3 \<Rightarrow> vec3" where
  "to_vec3 k = Vec3 (real_of_int (ix k)) (real_of_int (iy k)) (real_of_int (iz k))"

definition ivec3_add :: "ivec3 \<Rightarrow> ivec3 \<Rightarrow> ivec3" where
  "ivec3_add a b = IVec3 (ix a + ix b) (iy a + iy b) (iz a + iz b)"

text \<open>
  The grid parameters as \<^verbatim>\<open>Boids::initSimulation\<close> computes them from the configuration.
  \<^verbatim>\<open>gridMinimum\<close> is a global that starts at zero and is decremented by
  \<^verbatim>\<open>halfGridWidth\<close> on each axis, once, by the one call of \<^verbatim>\<open>initSimulation\<close>.
\<close>

definition gridCellWidth :: real where
  "gridCellWidth = 2 * max (max rule1Distance rule2Distance) rule3Distance"

definition halfSideCount :: int where
  "halfSideCount = trunc (scene_scale / gridCellWidth) + 1"

definition gridSideCount :: int where
  "gridSideCount = 2 * halfSideCount"

definition gridCellCount :: int where
  "gridCellCount = gridSideCount * gridSideCount * gridSideCount"

definition gridInverseCellWidth :: real where
  "gridInverseCellWidth = 1 / gridCellWidth"

definition halfGridWidth :: real where
  "halfGridWidth = gridCellWidth * real_of_int halfSideCount"

definition gridMinimum :: vec3 where
  "gridMinimum = Vec3 (0 - halfGridWidth) (0 - halfGridWidth) (0 - halfGridWidth)"

definition gridIndex3Dto1D :: "int \<Rightarrow> int \<Rightarrow> int \<Rightarrow> int \<Rightarrow> int" where
  "gridIndex3Dto1D x y z gridResolution =
     x + y * gridResolution + z * gridResolution * gridResolution"

text \<open>
  \<^verbatim>\<open>kernComputeIndices\<close>: thread \<open>i\<close> writes \<open>indices[i]\<close> and \<open>gridIndices[i]\<close>; the
  memory of a launch is the pair of the two buffers. \<open>cellIndex\<close> is the label the thread
  computes for \<open>pos[i]\<close>: the scaled offset from \<open>gridMin\<close>, converted to integers and
  flattened.
\<close>

definition cellIndex :: "int \<Rightarrow> vec3 \<Rightarrow> real \<Rightarrow> vec3 \<Rightarrow> int" where
  "cellIndex gridResolution gridMin inverseCellWidth p =
     (let gridCells = to_ivec3 (vscale (- gridMin + p) inverseCellWidth)
      in gridIndex3Dto1D (ix gridCells) (iy gridCells) (iz gridCells) gridResolution)"

definition kernComputeIndices_thread ::
  "nat \<Rightarrow> int \<Rightarrow> vec3 \<Rightarrow> real \<Rightarrow> vec3 list \<Rightarrow> nat \<Rightarrow> int list \<times> int list \<Rightarrow> int list \<times> int list" where
  "kernComputeIndices_thread N gridResolution gridMin inverseCellWidth pos i mem =
     (if i < N
      then ((fst mem)[i := int i],
            (snd mem)[i := cellIndex gridResolution gridMin inverseCellWidth (pos ! i)])
      else mem)"

definition kernComputeIndices ::
  "nat \<Rightarrow> int \<Rightarrow> vec3 \<Rightarrow> real \<Rightarrow> vec3 list \<Rightarrow> int list \<times> int list \<Rightarrow> int list \<times> int list" where
  "kernComputeIndices N gridResolution gridMin inverseCellWidth pos mem =
     launch (blocksPerGrid N)
       (kernComputeIndices_thread N gridResolution gridMin inverseCellWidth pos) mem"

text \<open>
  \<^verbatim>\<open>thrust::sort_by_key\<close> is the library's sort of the keys with the values permuted
  alike; the model is the stable sort of the key-value pairs by key. The library leaves
  the order of equal keys open; no general statement below depends on it.
\<close>

definition sort_by_key :: "int list \<Rightarrow> int list \<Rightarrow> int list \<times> int list" where
  "sort_by_key keys vals =
     (let kv = sort_key fst (zip keys vals) in (map fst kv, map snd kv))"

subsection \<open>Accesses that the data decide\<close>

text \<open>
  Where the index of an access is read from a buffer, or the extent of the buffer is not
  the launch's \<open>N\<close>, the access is written with \<open>rd\<close> and \<open>wr\<close>: \<open>None\<close> is an access
  outside the buffer, where the behaviour of the source is undefined (at best the launch
  fails and \<^verbatim>\<open>checkCUDAError\<close> ends the process). A kernel with such accesses returns
  \<open>None\<close> as soon as one thread leaves its buffers. The other accesses have a thread index
  below \<open>N\<close> into a buffer of \<open>N\<close> entries; they are written with \<open>!\<close>, and the
  statements about them assume the extents that \<open>allocated\<close> lists.
\<close>

definition rd :: "'a list \<Rightarrow> int \<Rightarrow> 'a option" where
  "rd xs i = (if 0 \<le> i \<and> i < int (length xs) then Some (xs ! nat i) else None)"

definition wr :: "'a list \<Rightarrow> int \<Rightarrow> 'a \<Rightarrow> 'a list option" where
  "wr xs i v = (if 0 \<le> i \<and> i < int (length xs) then Some (xs[nat i := v]) else None)"

definition launchM :: "nat \<Rightarrow> (nat \<Rightarrow> 'm \<Rightarrow> 'm option) \<Rightarrow> 'm \<Rightarrow> 'm option" where
  "launchM blocks thread mem = launch blocks (\<lambda>i r. r \<bind> thread i) (Some mem)"

definition kernResetIntBuffer_thread :: "nat \<Rightarrow> int \<Rightarrow> nat \<Rightarrow> int list \<Rightarrow> int list option" where
  "kernResetIntBuffer_thread N val index intBuffer =
     (if index < N then wr intBuffer (int index) val else Some intBuffer)"

definition kernResetIntBuffer :: "nat \<Rightarrow> int list \<Rightarrow> int \<Rightarrow> int list option" where
  "kernResetIntBuffer N intBuffer val =
     launchM (blocksPerGrid N) (kernResetIntBuffer_thread N val) intBuffer"

text \<open>
  \<^verbatim>\<open>kernIdentifyCellStartEnd\<close>: the memory of a launch is the pair (start table, end
  table). The three tests of a thread are in the source's order; the thread of index 0
  returns after the second.
\<close>

definition kernIdentifyCellStartEnd_thread ::
  "nat \<Rightarrow> int list \<Rightarrow> nat \<Rightarrow> int list \<times> int list \<Rightarrow> (int list \<times> int list) option" where
  "kernIdentifyCellStartEnd_thread N particleGridIndices i mem =
     do {
       ends1 \<leftarrow> (if i > 0 \<and> int i = int N - 1
                 then do { g \<leftarrow> rd particleGridIndices (int i); wr (snd mem) g (int i) }
                 else Some (snd mem));
       if i = 0
       then do {
         g \<leftarrow> rd particleGridIndices (int i);
         starts1 \<leftarrow> wr (fst mem) g (int i);
         Some (starts1, ends1)
       }
       else if i < N
       then do {
         gp \<leftarrow> rd particleGridIndices (int i - 1);
         g \<leftarrow> rd particleGridIndices (int i);
         if gp \<noteq> g
         then do {
           ends2 \<leftarrow> wr ends1 gp (int i - 1);
           starts2 \<leftarrow> wr (fst mem) g (int i);
           Some (starts2, ends2)
         }
         else Some (fst mem, ends1)
       }
       else Some (fst mem, ends1)
     }"

definition kernIdentifyCellStartEnd ::
  "nat \<Rightarrow> int list \<Rightarrow> int list \<times> int list \<Rightarrow> (int list \<times> int list) option" where
  "kernIdentifyCellStartEnd N particleGridIndices mem =
     launchM (blocksPerGrid N) (kernIdentifyCellStartEnd_thread N particleGridIndices) mem"

text \<open>
  \<^verbatim>\<open>calculateBoidNeighborCells\<close>: the three tests on the fractions all assign the
  variable \<^verbatim>\<open>x\<close>, as the source has them; \<^verbatim>\<open>y\<close> and \<^verbatim>\<open>z\<close> keep their initial 1.
  The result is the array \<^verbatim>\<open>neighbors[8]\<close>.
\<close>

definition calculateBoidNeighborCells :: "vec3 \<Rightarrow> int \<Rightarrow> int list" where
  "calculateBoidNeighborCells spacialIndex gridResolution =
     (let aux = spacialIndex - to_vec3 (to_ivec3 spacialIndex);
          x1 = (if vx aux < 1 / 2 then - 1 else 1);
          x2 = (if vy aux < 1 / 2 then - 1 else x1);
          x = (if vz aux < 1 / 2 then - 1 else x2);
          y = 1;
          z = 1;
          diffs = [IVec3 0 0 0, IVec3 x 0 0, IVec3 0 y 0, IVec3 0 0 z,
                   IVec3 x y 0, IVec3 0 y z, IVec3 x 0 z, IVec3 x y z]
      in map (\<lambda>d. let toEval = ivec3_add (to_ivec3 spacialIndex) d
                  in if ix toEval < 0 \<or> ix toEval \<ge> gridResolution \<or>
                        iy toEval < 0 \<or> iy toEval \<ge> gridResolution \<or>
                        iz toEval < 0 \<or> iz toEval \<ge> gridResolution
                     then - 1
                     else gridIndex3Dto1D (ix toEval) (iy toEval) (iz toEval) gridResolution)
           diffs)"

text \<open>
  One visit of the inner loop of a grid kernel: the boid of slot \<open>b\<close> seen from
  \<open>currentPos\<close>. \<open>vel1[b]\<close> is read only under the third distance test.
\<close>

definition visit :: "vec3 list \<Rightarrow> vec3 list \<Rightarrow> vec3 \<Rightarrow> int \<Rightarrow> rules \<Rightarrow> rules option" where
  "visit pos vel1 currentPos b a =
     do {
       pb \<leftarrow> rd pos b;
       vb \<leftarrow> (if glm_distance currentPos pb < rule3Distance then rd vel1 b else Some 0);
       Some (ruleBody currentPos pb vb a)
     }"

text \<open>A loop of the source over a list of indices, left at the first access out of range.\<close>

definition foldM :: "('i \<Rightarrow> 'a \<Rightarrow> 'a option) \<Rightarrow> 'i list \<Rightarrow> 'a \<Rightarrow> 'a option" where
  "foldM f is a = fold (\<lambda>i r. r \<bind> f i) is (Some a)"

text \<open>
  \<^verbatim>\<open>kernUpdateVelNeighborSearchScattered\<close>: the inner loop runs \<open>j = start, \<dots>, end\<close>
  with the end included, and reads the slot \<open>b\<close> from \<open>particleArrayIndices[j]\<close>.
\<close>

definition scatteredCell ::
  "int list \<Rightarrow> vec3 list \<Rightarrow> vec3 list \<Rightarrow> int \<Rightarrow> vec3 \<Rightarrow> int \<Rightarrow> int \<Rightarrow> rules \<Rightarrow> rules option" where
  "scatteredCell particleArrayIndices pos vel1 linearIndex currentPos start end a =
     foldM (\<lambda>j a. do {
              b \<leftarrow> rd particleArrayIndices j;
              if linearIndex \<noteq> b then visit pos vel1 currentPos b a else Some a
            })
       [start..end] a"

definition kernUpdateVelNeighborSearchScattered_thread ::
  "nat \<Rightarrow> int \<Rightarrow> vec3 \<Rightarrow> real \<Rightarrow> real \<Rightarrow> int list \<Rightarrow> int list \<Rightarrow> int list \<Rightarrow>
   vec3 list \<Rightarrow> vec3 list \<Rightarrow> nat \<Rightarrow> vec3 list \<times> string list \<Rightarrow> (vec3 list \<times> string list) option" where
  "kernUpdateVelNeighborSearchScattered_thread N gridResolution gridMin inverseCellWidth cellWidth
     gridCellStartIndices gridCellEndIndices particleArrayIndices pos vel1 index mem =
     (if index \<ge> N then Some mem
      else do {
        linearIndex \<leftarrow> rd particleArrayIndices (int index);
        currentPos \<leftarrow> rd pos linearIndex;
        let spacialIndex = vscale (currentPos - gridMin) inverseCellWidth;
        let neighbors = calculateBoidNeighborCells spacialIndex gridResolution;
        a \<leftarrow> foldM (\<lambda>nb a. if nb < 0 then Some a
                      else do {
                        start \<leftarrow> rd gridCellStartIndices nb;
                        end \<leftarrow> rd gridCellEndIndices nb;
                        scatteredCell particleArrayIndices pos vel1 linearIndex currentPos
                          start end a
                      })
               neighbors rules0;
        own \<leftarrow> rd vel1 linearIndex;
        let lim = limitSpeed (ruleResult currentPos a + own);
        vel2 \<leftarrow> wr (fst mem) linearIndex (fst lim);
        Some (vel2, report (snd lim) (snd mem))
      })"

definition kernUpdateVelNeighborSearchScattered ::
  "nat \<Rightarrow> int \<Rightarrow> vec3 \<Rightarrow> real \<Rightarrow> real \<Rightarrow> int list \<Rightarrow> int list \<Rightarrow> int list \<Rightarrow>
   vec3 list \<Rightarrow> vec3 list \<Rightarrow> vec3 list \<times> string list \<Rightarrow> (vec3 list \<times> string list) option" where
  "kernUpdateVelNeighborSearchScattered N gridResolution gridMin inverseCellWidth cellWidth
     gridCellStartIndices gridCellEndIndices particleArrayIndices pos vel1 mem =
     launchM (blocksPerGrid N)
       (kernUpdateVelNeighborSearchScattered_thread N gridResolution gridMin inverseCellWidth
          cellWidth gridCellStartIndices gridCellEndIndices particleArrayIndices pos vel1) mem"

text \<open>
  \<^verbatim>\<open>kernUpdateVelNeighborSearchCoherent\<close>: the thread index is the slot, the inner loop
  runs \<open>j = start, \<dots>, end - 1\<close> and visits slot \<open>j\<close> itself.
\<close>

definition coherentCell ::
  "vec3 list \<Rightarrow> vec3 list \<Rightarrow> int \<Rightarrow> vec3 \<Rightarrow> int \<Rightarrow> int \<Rightarrow> rules \<Rightarrow> rules option" where
  "coherentCell pos vel1 linearIndex currentPos start end a =
     foldM (\<lambda>j a. if linearIndex \<noteq> j then visit pos vel1 currentPos j a else Some a)
       [start..end - 1] a"

definition kernUpdateVelNeighborSearchCoherent_thread ::
  "nat \<Rightarrow> int \<Rightarrow> vec3 \<Rightarrow> real \<Rightarrow> real \<Rightarrow> int list \<Rightarrow> int list \<Rightarrow>
   vec3 list \<Rightarrow> vec3 list \<Rightarrow> nat \<Rightarrow> vec3 list \<times> string list \<Rightarrow> (vec3 list \<times> string list) option" where
  "kernUpdateVelNeighborSearchCoherent_thread N gridResolution gridMin inverseCellWidth cellWidth
     gridCellStartIndices gridCellEndIndices pos vel1 linearIndex mem =
     (if linearIndex \<ge> N then Some mem
      else do {
        currentPos \<leftarrow> rd pos (int linearIndex);
        let spacialIndex = vscale (currentPos - gridMin) inverseCellWidth;
        let neighbors = calculateBoidNeighborCells spacialIndex gridResolution;
        a \<leftarrow> foldM (\<lambda>nb a. if nb < 0 then Some a
                      else do {
                        start \<leftarrow> rd gridCellStartIndices nb;
                        end \<leftarrow> rd gridCellEndIndices nb;
                        coherentCell pos vel1 (int linearIndex) currentPos start end a
                      })
               neighbors rules0;
        own \<leftarrow> rd vel1 (int linearIndex);
        let lim = limitSpeed (ruleResult currentPos a + own);
        vel2 \<leftarrow> wr (fst mem) (int linearIndex) (fst lim);
        Some (vel2, report (snd lim) (snd mem))
      })"

definition kernUpdateVelNeighborSearchCoherent ::
  "nat \<Rightarrow> int \<Rightarrow> vec3 \<Rightarrow> real \<Rightarrow> real \<Rightarrow> int list \<Rightarrow> int list \<Rightarrow>
   vec3 list \<Rightarrow> vec3 list \<Rightarrow> vec3 list \<times> string list \<Rightarrow> (vec3 list \<times> string list) option" where
  "kernUpdateVelNeighborSearchCoherent N gridResolution gridMin inverseCellWidth cellWidth
     gridCellStartIndices gridCellEndIndices pos vel1 mem =
     launchM (blocksPerGrid N)
       (kernUpdateVelNeighborSearchCoherent_thread N gridResolution gridMin inverseCellWidth
          cellWidth gridCellStartIndices gridCellEndIndices pos vel1) mem"

text \<open>
  \<^verbatim>\<open>kernPropogateCoherency\<close>: the memory of a launch is the pair (\<open>pos2\<close>, \<open>vel2\<close>);
  thread \<open>i\<close> writes slot \<open>i\<close> of both.
\<close>

definition kernPropogateCoherency_thread ::
  "nat \<Rightarrow> int list \<Rightarrow> vec3 list \<Rightarrow> vec3 list \<Rightarrow> nat \<Rightarrow> vec3 list \<times> vec3 list \<Rightarrow>
   (vec3 list \<times> vec3 list) option" where
  "kernPropogateCoherency_thread N particaleArrayIndices pos vel i mem =
     (if i \<ge> N then Some mem
      else do {
        k \<leftarrow> rd particaleArrayIndices (int i);
        v \<leftarrow> rd vel k;
        vel2 \<leftarrow> wr (snd mem) (int i) v;
        p \<leftarrow> rd pos k;
        pos2 \<leftarrow> wr (fst mem) (int i) p;
        Some (pos2, vel2)
      })"

definition kernPropogateCoherency ::
  "nat \<Rightarrow> int list \<Rightarrow> vec3 list \<Rightarrow> vec3 list \<Rightarrow> vec3 list \<times> vec3 list \<Rightarrow>
   (vec3 list \<times> vec3 list) option" where
  "kernPropogateCoherency N particaleArrayIndices pos vel mem =
     launchM (blocksPerGrid N) (kernPropogateCoherency_thread N particaleArrayIndices pos vel) mem"

section \<open>Simulation state\<close>

text \<open>
  The device buffers and \<^verbatim>\<open>numObjects\<close>, under the names of the globals, and the text
  written to standard output. \<^verbatim>\<open>std::swap\<close> of two buffer pointers is the exchange of
  two fields.
\<close>

record sim =
  numObjects :: nat
  dev_pos :: "vec3 list"
  dev_vel1 :: "vec3 list"
  dev_vel2 :: "vec3 list"
  dev_particleArrayIndices :: "int list"
  dev_particleGridIndices :: "int list"
  dev_gridCellStartIndices :: "int list"
  dev_gridCellEndIndices :: "int list"
  dev_pos_co :: "vec3 list"
  dev_vel_co :: "vec3 list"
  console :: "string list"

definition stepSimulationNaive :: "real \<Rightarrow> sim \<Rightarrow> sim" where
  "stepSimulationNaive dt s =
     (let N = numObjects s;
          written = kernUpdateVelocityBruteForce N (dev_pos s) (dev_vel1 s) (dev_vel2 s, console s);
          pos' = kernUpdatePos N dt (dev_pos s) (dev_vel1 s)
      in s\<lparr>dev_pos := pos', dev_vel1 := fst written, dev_vel2 := dev_vel1 s,
            console := snd written\<rparr>)"

text \<open>
  The stages that the two grid steps share, each a run of launches of the source:
  labelling and sorting (\<^verbatim>\<open>kernComputeIndices\<close>, \<^verbatim>\<open>thrust::sort_by_key\<close>), the two
  \<^verbatim>\<open>kernResetIntBuffer\<close> launches, which both steps give \<^verbatim>\<open>numObjects\<close> as the
  number of entries to reset, and the \<^verbatim>\<open>kernIdentifyCellStartEnd\<close> launch.
\<close>

definition stageIndices :: "sim \<Rightarrow> sim" where
  "stageIndices s =
     (let labelled = kernComputeIndices (numObjects s) gridSideCount gridMinimum
                       gridInverseCellWidth (dev_pos s)
                       (dev_particleArrayIndices s, dev_particleGridIndices s);
          sorted = sort_by_key (snd labelled) (fst labelled)
      in s\<lparr>dev_particleArrayIndices := snd sorted, dev_particleGridIndices := fst sorted\<rparr>)"

definition stageReset :: "sim \<Rightarrow> sim option" where
  "stageReset s =
     do {
       ends \<leftarrow> kernResetIntBuffer (numObjects s) (dev_gridCellEndIndices s) (- 1);
       starts \<leftarrow> kernResetIntBuffer (numObjects s) (dev_gridCellStartIndices s) (- 1);
       Some (s\<lparr>dev_gridCellStartIndices := starts, dev_gridCellEndIndices := ends\<rparr>)
     }"

definition stageCellStartEnd :: "sim \<Rightarrow> sim option" where
  "stageCellStartEnd s =
     do {
       tables \<leftarrow> kernIdentifyCellStartEnd (numObjects s) (dev_particleGridIndices s)
                  (dev_gridCellStartIndices s, dev_gridCellEndIndices s);
       Some (s\<lparr>dev_gridCellStartIndices := fst tables, dev_gridCellEndIndices := snd tables\<rparr>)
     }"

text \<open>
  \<^verbatim>\<open>Boids::stepSimulationScatteredGrid\<close>: label and sort, reset, identify, search
  (\<open>dev_vel1\<close> to \<open>dev_vel2\<close>), integrate with \<open>dev_vel2\<close>, swap the velocity buffers.
\<close>

definition stageSearchScattered :: "sim \<Rightarrow> sim option" where
  "stageSearchScattered s =
     do {
       written \<leftarrow> kernUpdateVelNeighborSearchScattered (numObjects s) gridSideCount gridMinimum
                   gridInverseCellWidth gridCellWidth (dev_gridCellStartIndices s)
                   (dev_gridCellEndIndices s) (dev_particleArrayIndices s) (dev_pos s)
                   (dev_vel1 s) (dev_vel2 s, console s);
       Some (s\<lparr>dev_vel2 := fst written, console := snd written\<rparr>)
     }"

definition stepSimulationScatteredGrid :: "real \<Rightarrow> sim \<Rightarrow> sim option" where
  "stepSimulationScatteredGrid dt s =
     do {
       s2 \<leftarrow> stageReset (stageIndices s);
       s3 \<leftarrow> stageCellStartEnd s2;
       s4 \<leftarrow> stageSearchScattered s3;
       let pos' = kernUpdatePos (numObjects s4) dt (dev_pos s4) (dev_vel2 s4);
       Some (s4\<lparr>dev_pos := pos', dev_vel1 := dev_vel2 s4, dev_vel2 := dev_vel1 s4\<rparr>)
     }"

text \<open>
  \<^verbatim>\<open>Boids::stepSimulationCoherentGrid\<close>: reset, label and sort, identify, copy into
  sorted order (\<open>dev_pos_co\<close>, \<open>dev_vel_co\<close>), search (\<open>dev_vel_co\<close> to \<open>dev_vel1\<close>),
  integrate \<open>dev_pos_co\<close> with \<open>dev_vel1\<close>, swap \<open>dev_vel_co\<close> with \<open>dev_vel2\<close> and
  \<open>dev_pos\<close> with \<open>dev_pos_co\<close>.
\<close>

definition stageCoherency :: "sim \<Rightarrow> sim option" where
  "stageCoherency s =
     do {
       copied \<leftarrow> kernPropogateCoherency (numObjects s) (dev_particleArrayIndices s) (dev_pos s)
                  (dev_vel1 s) (dev_pos_co s, dev_vel_co s);
       Some (s\<lparr>dev_pos_co := fst copied, dev_vel_co := snd copied\<rparr>)
     }"

definition stageSearchCoherent :: "sim \<Rightarrow> sim option" where
  "stageSearchCoherent s =
     do {
       written \<leftarrow> kernUpdateVelNeighborSearchCoherent (numObjects s) gridSideCount gridMinimum
                   gridInverseCellWidth gridCellWidth (dev_gridCellStartIndices s)
                   (dev_gridCellEndIndices s) (dev_pos_co s) (dev_vel_co s)
                   (dev_vel1 s, console s);
       Some (s\<lparr>dev_vel1 := fst written, console := snd written\<rparr>)
     }"

definition stepSimulationCoherentGrid :: "real \<Rightarrow> sim \<Rightarrow> sim option" where
  "stepSimulationCoherentGrid dt s =
     do {
       s1 \<leftarrow> stageReset s;
       s3 \<leftarrow> stageCellStartEnd (stageIndices s1);
       s4 \<leftarrow> stageCoherency s3;
       s5 \<leftarrow> stageSearchCoherent s4;
       let pos' = kernUpdatePos (numObjects s5) dt (dev_pos_co s5) (dev_vel1 s5);
       Some (s5\<lparr>dev_pos := pos', dev_pos_co := dev_pos s5,
                dev_vel_co := dev_vel2 s5, dev_vel2 := dev_vel_co s5\<rparr>)
     }"

text \<open>
  What \<^verbatim>\<open>Boids::initSimulation\<close> establishes: the boid buffers and the two index
  buffers have \<^verbatim>\<open>numObjects\<close> entries, the two tables \<^verbatim>\<open>gridCellCount\<close>. The
  contents of the tables and of the index buffers are whatever the allocation or the
  previous step left there.
\<close>

definition allocated :: "sim \<Rightarrow> bool" where
  "allocated s =
     (length (dev_pos s) = numObjects s \<and> length (dev_vel1 s) = numObjects s \<and>
      length (dev_vel2 s) = numObjects s \<and>
      length (dev_particleArrayIndices s) = numObjects s \<and>
      length (dev_particleGridIndices s) = numObjects s \<and>
      int (length (dev_gridCellStartIndices s)) = gridCellCount \<and>
      int (length (dev_gridCellEndIndices s)) = gridCellCount \<and>
      length (dev_pos_co s) = numObjects s \<and> length (dev_vel_co s) = numObjects s)"

definition inScene :: "vec3 \<Rightarrow> bool" where
  "inScene p =
     (- scene_scale \<le> vx p \<and> vx p \<le> scene_scale \<and>
      - scene_scale \<le> vy p \<and> vy p \<le> scene_scale \<and>
      - scene_scale \<le> vz p \<and> vz p \<le> scene_scale)"

section \<open>Reads outside a buffer\<close>

text \<open>
  The two neighbour-search kernels and the two grid steps once more, with the reads of
  the kernels made through three readers that are parameters: \<open>rdInt\<close> for the integer
  buffers, \<open>rdPos\<close> for positions, \<open>rdVel\<close> for velocities. With \<open>rd\<close> for all three
  they are the kernels and steps above. With \<open>rdAny\<close> a read outside the buffer does not
  end the launch: it returns \<open>beyond i\<close>, the value that the memory happens to hold at
  index \<open>i\<close>, about which nothing is assumed. The writes, the stages before the search and
  the integrator are as above; a write outside its buffer still ends the step.
\<close>

definition rdAny :: "(int \<Rightarrow> 'a) \<Rightarrow> 'a list \<Rightarrow> int \<Rightarrow> 'a option" where
  "rdAny beyond xs i = Some (if 0 \<le> i \<and> i < int (length xs) then xs ! nat i else beyond i)"

definition visitBy ::
  "(vec3 list \<Rightarrow> int \<Rightarrow> vec3 option) \<Rightarrow> (vec3 list \<Rightarrow> int \<Rightarrow> vec3 option) \<Rightarrow>
   vec3 list \<Rightarrow> vec3 list \<Rightarrow> vec3 \<Rightarrow> int \<Rightarrow> rules \<Rightarrow> rules option" where
  "visitBy rdPos rdVel pos vel1 currentPos b a =
     do {
       pb \<leftarrow> rdPos pos b;
       vb \<leftarrow> (if glm_distance currentPos pb < rule3Distance then rdVel vel1 b else Some 0);
       Some (ruleBody currentPos pb vb a)
     }"

definition scatteredCellBy ::
  "(int list \<Rightarrow> int \<Rightarrow> int option) \<Rightarrow> (vec3 list \<Rightarrow> int \<Rightarrow> vec3 option) \<Rightarrow>
   (vec3 list \<Rightarrow> int \<Rightarrow> vec3 option) \<Rightarrow>
   int list \<Rightarrow> vec3 list \<Rightarrow> vec3 list \<Rightarrow> int \<Rightarrow> vec3 \<Rightarrow> int \<Rightarrow> int \<Rightarrow> rules \<Rightarrow> rules option" where
  "scatteredCellBy rdInt rdPos rdVel particleArrayIndices pos vel1 linearIndex currentPos start end a =
     foldM (\<lambda>j a. do {
              b \<leftarrow> rdInt particleArrayIndices j;
              if linearIndex \<noteq> b then visitBy rdPos rdVel pos vel1 currentPos b a else Some a
            })
       [start..end] a"

definition kernUpdateVelNeighborSearchScatteredBy_thread ::
  "(int list \<Rightarrow> int \<Rightarrow> int option) \<Rightarrow> (vec3 list \<Rightarrow> int \<Rightarrow> vec3 option) \<Rightarrow>
   (vec3 list \<Rightarrow> int \<Rightarrow> vec3 option) \<Rightarrow>
   nat \<Rightarrow> int \<Rightarrow> vec3 \<Rightarrow> real \<Rightarrow> real \<Rightarrow> int list \<Rightarrow> int list \<Rightarrow> int list \<Rightarrow>
   vec3 list \<Rightarrow> vec3 list \<Rightarrow> nat \<Rightarrow> vec3 list \<times> string list \<Rightarrow> (vec3 list \<times> string list) option" where
  "kernUpdateVelNeighborSearchScatteredBy_thread rdInt rdPos rdVel N gridResolution gridMin
     inverseCellWidth cellWidth gridCellStartIndices gridCellEndIndices particleArrayIndices
     pos vel1 index mem =
     (if index \<ge> N then Some mem
      else do {
        linearIndex \<leftarrow> rdInt particleArrayIndices (int index);
        currentPos \<leftarrow> rdPos pos linearIndex;
        let spacialIndex = vscale (currentPos - gridMin) inverseCellWidth;
        let neighbors = calculateBoidNeighborCells spacialIndex gridResolution;
        a \<leftarrow> foldM (\<lambda>nb a. if nb < 0 then Some a
                      else do {
                        start \<leftarrow> rdInt gridCellStartIndices nb;
                        end \<leftarrow> rdInt gridCellEndIndices nb;
                        scatteredCellBy rdInt rdPos rdVel particleArrayIndices pos vel1
                          linearIndex currentPos start end a
                      })
               neighbors rules0;
        own \<leftarrow> rdVel vel1 linearIndex;
        let lim = limitSpeed (ruleResult currentPos a + own);
        vel2 \<leftarrow> wr (fst mem) linearIndex (fst lim);
        Some (vel2, report (snd lim) (snd mem))
      })"

definition kernUpdateVelNeighborSearchScatteredBy ::
  "(int list \<Rightarrow> int \<Rightarrow> int option) \<Rightarrow> (vec3 list \<Rightarrow> int \<Rightarrow> vec3 option) \<Rightarrow>
   (vec3 list \<Rightarrow> int \<Rightarrow> vec3 option) \<Rightarrow>
   nat \<Rightarrow> int \<Rightarrow> vec3 \<Rightarrow> real \<Rightarrow> real \<Rightarrow> int list \<Rightarrow> int list \<Rightarrow> int list \<Rightarrow>
   vec3 list \<Rightarrow> vec3 list \<Rightarrow> vec3 list \<times> string list \<Rightarrow> (vec3 list \<times> string list) option" where
  "kernUpdateVelNeighborSearchScatteredBy rdInt rdPos rdVel N gridResolution gridMin
     inverseCellWidth cellWidth gridCellStartIndices gridCellEndIndices particleArrayIndices
     pos vel1 mem =
     launchM (blocksPerGrid N)
       (kernUpdateVelNeighborSearchScatteredBy_thread rdInt rdPos rdVel N gridResolution gridMin
          inverseCellWidth cellWidth gridCellStartIndices gridCellEndIndices particleArrayIndices
          pos vel1) mem"

definition coherentCellBy ::
  "(vec3 list \<Rightarrow> int \<Rightarrow> vec3 option) \<Rightarrow> (vec3 list \<Rightarrow> int \<Rightarrow> vec3 option) \<Rightarrow>
   vec3 list \<Rightarrow> vec3 list \<Rightarrow> int \<Rightarrow> vec3 \<Rightarrow> int \<Rightarrow> int \<Rightarrow> rules \<Rightarrow> rules option" where
  "coherentCellBy rdPos rdVel pos vel1 linearIndex currentPos start end a =
     foldM (\<lambda>j a. if linearIndex \<noteq> j then visitBy rdPos rdVel pos vel1 currentPos j a else Some a)
       [start..end - 1] a"

definition kernUpdateVelNeighborSearchCoherentBy_thread ::
  "(int list \<Rightarrow> int \<Rightarrow> int option) \<Rightarrow> (vec3 list \<Rightarrow> int \<Rightarrow> vec3 option) \<Rightarrow>
   (vec3 list \<Rightarrow> int \<Rightarrow> vec3 option) \<Rightarrow>
   nat \<Rightarrow> int \<Rightarrow> vec3 \<Rightarrow> real \<Rightarrow> real \<Rightarrow> int list \<Rightarrow> int list \<Rightarrow>
   vec3 list \<Rightarrow> vec3 list \<Rightarrow> nat \<Rightarrow> vec3 list \<times> string list \<Rightarrow> (vec3 list \<times> string list) option" where
  "kernUpdateVelNeighborSearchCoherentBy_thread rdInt rdPos rdVel N gridResolution gridMin
     inverseCellWidth cellWidth gridCellStartIndices gridCellEndIndices pos vel1 linearIndex mem =
     (if linearIndex \<ge> N then Some mem
      else do {
        currentPos \<leftarrow> rdPos pos (int linearIndex);
        let spacialIndex = vscale (currentPos - gridMin) inverseCellWidth;
        let neighbors = calculateBoidNeighborCells spacialIndex gridResolution;
        a \<leftarrow> foldM (\<lambda>nb a. if nb < 0 then Some a
                      else do {
                        start \<leftarrow> rdInt gridCellStartIndices nb;
                        end \<leftarrow> rdInt gridCellEndIndices nb;
                        coherentCellBy rdPos rdVel pos vel1 (int linearIndex) currentPos start end a
                      })
               neighbors rules0;
        own \<leftarrow> rdVel vel1 (int linearIndex);
        let lim = limitSpeed (ruleResult currentPos a + own);
        vel2 \<leftarrow> wr (fst mem) (int linearIndex) (fst lim);
        Some (vel2, report (snd lim) (snd mem))
      })"

definition kernUpdateVelNeighborSearchCoherentBy ::
  "(int list \<Rightarrow> int \<Rightarrow> int option) \<Rightarrow> (vec3 list \<Rightarrow> int \<Rightarrow> vec3 option) \<Rightarrow>
   (vec3 list \<Rightarrow> int \<Rightarrow> vec3 option) \<Rightarrow>
   nat \<Rightarrow> int \<Rightarrow> vec3 \<Rightarrow> real \<Rightarrow> real \<Rightarrow> int list \<Rightarrow> int list \<Rightarrow>
   vec3 list \<Rightarrow> vec3 list \<Rightarrow> vec3 list \<times> string list \<Rightarrow> (vec3 list \<times> string list) option" where
  "kernUpdateVelNeighborSearchCoherentBy rdInt rdPos rdVel N gridResolution gridMin
     inverseCellWidth cellWidth gridCellStartIndices gridCellEndIndices pos vel1 mem =
     launchM (blocksPerGrid N)
       (kernUpdateVelNeighborSearchCoherentBy_thread rdInt rdPos rdVel N gridResolution gridMin
          inverseCellWidth cellWidth gridCellStartIndices gridCellEndIndices pos vel1) mem"

definition stageSearchScatteredBy ::
  "(int list \<Rightarrow> int \<Rightarrow> int option) \<Rightarrow> (vec3 list \<Rightarrow> int \<Rightarrow> vec3 option) \<Rightarrow>
   (vec3 list \<Rightarrow> int \<Rightarrow> vec3 option) \<Rightarrow> sim \<Rightarrow> sim option" where
  "stageSearchScatteredBy rdInt rdPos rdVel s =
     do {
       written \<leftarrow> kernUpdateVelNeighborSearchScatteredBy rdInt rdPos rdVel (numObjects s)
                   gridSideCount gridMinimum gridInverseCellWidth gridCellWidth
                   (dev_gridCellStartIndices s) (dev_gridCellEndIndices s)
                   (dev_particleArrayIndices s) (dev_pos s) (dev_vel1 s) (dev_vel2 s, console s);
       Some (s\<lparr>dev_vel2 := fst written, console := snd written\<rparr>)
     }"

definition stepSimulationScatteredGridBy ::
  "(int list \<Rightarrow> int \<Rightarrow> int option) \<Rightarrow> (vec3 list \<Rightarrow> int \<Rightarrow> vec3 option) \<Rightarrow>
   (vec3 list \<Rightarrow> int \<Rightarrow> vec3 option) \<Rightarrow> real \<Rightarrow> sim \<Rightarrow> sim option" where
  "stepSimulationScatteredGridBy rdInt rdPos rdVel dt s =
     do {
       s2 \<leftarrow> stageReset (stageIndices s);
       s3 \<leftarrow> stageCellStartEnd s2;
       s4 \<leftarrow> stageSearchScatteredBy rdInt rdPos rdVel s3;
       let pos' = kernUpdatePos (numObjects s4) dt (dev_pos s4) (dev_vel2 s4);
       Some (s4\<lparr>dev_pos := pos', dev_vel1 := dev_vel2 s4, dev_vel2 := dev_vel1 s4\<rparr>)
     }"

definition stageSearchCoherentBy ::
  "(int list \<Rightarrow> int \<Rightarrow> int option) \<Rightarrow> (vec3 list \<Rightarrow> int \<Rightarrow> vec3 option) \<Rightarrow>
   (vec3 list \<Rightarrow> int \<Rightarrow> vec3 option) \<Rightarrow> sim \<Rightarrow> sim option" where
  "stageSearchCoherentBy rdInt rdPos rdVel s =
     do {
       written \<leftarrow> kernUpdateVelNeighborSearchCoherentBy rdInt rdPos rdVel (numObjects s)
                   gridSideCount gridMinimum gridInverseCellWidth gridCellWidth
                   (dev_gridCellStartIndices s) (dev_gridCellEndIndices s)
                   (dev_pos_co s) (dev_vel_co s) (dev_vel1 s, console s);
       Some (s\<lparr>dev_vel1 := fst written, console := snd written\<rparr>)
     }"

definition stepSimulationCoherentGridBy ::
  "(int list \<Rightarrow> int \<Rightarrow> int option) \<Rightarrow> (vec3 list \<Rightarrow> int \<Rightarrow> vec3 option) \<Rightarrow>
   (vec3 list \<Rightarrow> int \<Rightarrow> vec3 option) \<Rightarrow> real \<Rightarrow> sim \<Rightarrow> sim option" where
  "stepSimulationCoherentGridBy rdInt rdPos rdVel dt s =
     do {
       s1 \<leftarrow> stageReset s;
       s3 \<leftarrow> stageCellStartEnd (stageIndices s1);
       s4 \<leftarrow> stageCoherency s3;
       s5 \<leftarrow> stageSearchCoherentBy rdInt rdPos rdVel s4;
       let pos' = kernUpdatePos (numObjects s5) dt (dev_pos_co s5) (dev_vel1 s5);
       Some (s5\<lparr>dev_pos := pos', dev_pos_co := dev_pos s5,
                dev_vel_co := dev_vel2 s5, dev_vel2 := dev_vel_co s5\<rparr>)
     }"

section \<open>The rules as the specification words them\<close>








definition limited :: "vec3 \<Rightarrow> vec3" where
  "limited v = (if glm_length v > maxSpeed then vscale v (maxSpeed / glm_length v) else v)"


section \<open>Neighbour cells as the specification words them\<close>

text \<open>
  Section 4.4 of the specification: the cell itself plus, for each axis on its own, the
  one adjacent cell on the side of the boid, that is one sign per axis taken from the
  fraction of that axis. The lattice test is the one of the source.
\<close>

definition neighborCellsPerAxis :: "vec3 \<Rightarrow> int \<Rightarrow> int list" where
  "neighborCellsPerAxis spacialIndex gridResolution =
     (let aux = spacialIndex - to_vec3 (to_ivec3 spacialIndex);
          x = (if vx aux < 1 / 2 then - 1 else 1);
          y = (if vy aux < 1 / 2 then - 1 else 1);
          z = (if vz aux < 1 / 2 then - 1 else 1);
          diffs = [IVec3 0 0 0, IVec3 x 0 0, IVec3 0 y 0, IVec3 0 0 z,
                   IVec3 x y 0, IVec3 0 y z, IVec3 x 0 z, IVec3 x y z]
      in map (\<lambda>d. let toEval = ivec3_add (to_ivec3 spacialIndex) d
                  in if ix toEval < 0 \<or> ix toEval \<ge> gridResolution \<or>
                        iy toEval < 0 \<or> iy toEval \<ge> gridResolution \<or>
                        iz toEval < 0 \<or> iz toEval \<ge> gridResolution
                     then - 1
                     else gridIndex3Dto1D (ix toEval) (iy toEval) (iz toEval) gridResolution)
           diffs)"


section \<open>The range total of the boundary tables\<close>

text \<open>
  The sum of section 8 of the specification: over the cells whose start entry is not
  \<open>-1\<close>, the size \<open>end - start + 1\<close> of the range with the end included.
\<close>

definition cellRange :: "int list \<Rightarrow> int list \<Rightarrow> nat \<Rightarrow> int" where
  "cellRange starts ends c = (if starts ! c = - 1 then 0 else ends ! c - starts ! c + 1)"

definition rangeTotal :: "int list \<Rightarrow> int list \<Rightarrow> int" where
  "rangeTotal starts ends = sum_list (map (cellRange starts ends) [0..<length starts])"

text \<open>The invariant of the build, used in the lemmas on sorted labels below.\<close>

definition runInvariant :: "int list \<Rightarrow> nat \<Rightarrow> nat \<Rightarrow> int list \<times> int list \<Rightarrow> bool" where
  "runInvariant gs M n tables =
     (let S = fst tables; E = snd tables; cur = nat (gs ! (n - 1))
      in length S = M \<and> length E = M \<and>
         (\<forall>c<M. int c \<notin> set (take n gs) \<longrightarrow> S ! c = - 1 \<and> E ! c = - 1) \<and>
         0 \<le> S ! cur \<and> S ! cur < int n \<and>
         E ! cur = (if n = length gs \<and> 2 \<le> n then int n - 1 else - 1) \<and>
         sum (cellRange S E) ({..<M} - {cur}) = S ! cur)"

section \<open>The brute-force kernel in binary32\<close>

text \<open>
  \<^verbatim>\<open>float\<close> is IEEE binary32: 24 significant bits, neighbouring numbers
  \<open>2 ^ (- 149)\<close> apart below \<open>2 ^ (- 125)\<close> and twice as far apart in each further
  binade, up to \<open>2 ^ 104\<close>. \<open>ulp x\<close> is that distance at \<open>x\<close>, \<open>rne\<close> rounds to the nearest
  integer with ties to the even one, and \<open>fl x\<close> is \<open>x\<close> rounded to the nearest number of
  the format. The model has no infinity and no NaN: \<open>fl\<close> is the rounding of binary32 for
  every \<open>x\<close> that binary32 rounds to a finite number. (The kernel divides by a count
  that is not zero and by the square root of a squared length that exceeds
  \<^verbatim>\<open>maxSpeed\<close>, never by zero.)
\<close>

definition rne :: "real \<Rightarrow> int" where
  "rne x = (let f = \<lfloor>x\<rfloor>; r = x - of_int f
            in if r < 1 / 2 then f else if 1 / 2 < r then f + 1
               else if even f then f else f + 1)"

fun spacing :: "nat \<Rightarrow> real \<Rightarrow> real \<Rightarrow> real" where
  "spacing 0 u a = u"
| "spacing (Suc n) u a = (if 2 ^ 24 * u \<le> a then spacing n (2 * u) a else u)"

definition ulp :: "real \<Rightarrow> real" where
  "ulp x = spacing 253 (1 / 2 ^ 149) \<bar>x\<bar>"

definition fl :: "real \<Rightarrow> real" where
  "fl x = of_int (rne (x / ulp x)) * ulp x"

















section \<open>Concrete states\<close>

text \<open>
  Two boids one unit apart on the upper \<open>y\<close> and \<open>z\<close> faces of the scene, at rest. The
  tables hold \<open>-1\<close> but for cell 10636, whose entries \<open>0\<close> and \<open>1\<close> are a range left by
  an earlier step (or by the allocation, which does not clear the tables).
\<close>

definition staleStarts :: "int list" where
  "staleStarts = (replicate 10648 (- 1))[10636 := 0]"

definition staleEnds :: "int list" where
  "staleEnds = (replicate 10648 (- 1))[10636 := 1]"

definition pairState :: sim where
  "pairState =
     \<lparr>numObjects = 2, dev_pos = [Vec3 0 100 100, Vec3 1 100 100], dev_vel1 = [0, 0],
      dev_vel2 = [0, 0], dev_particleArrayIndices = [0, 0], dev_particleGridIndices = [0, 0],
      dev_gridCellStartIndices = staleStarts, dev_gridCellEndIndices = staleEnds,
      dev_pos_co = [0, 0], dev_vel_co = [0, 0], console = []\<rparr>"

text \<open>Two boids in different cells, the boid of slot 0 in the cell of the larger label.\<close>

definition crossState :: sim where
  "crossState =
     \<lparr>numObjects = 2, dev_pos = [Vec3 50 0 0, Vec3 0 0 0], dev_vel1 = [0, 0],
      dev_vel2 = [0, 0], dev_particleArrayIndices = [0, 0], dev_particleGridIndices = [0, 0],
      dev_gridCellStartIndices = replicate 10648 (- 1),
      dev_gridCellEndIndices = replicate 10648 (- 1),
      dev_pos_co = [0, 0], dev_vel_co = [0, 0], console = []\<rparr>"

text \<open>One boid at the centre of the scene, with both tables holding \<open>-1\<close> throughout.\<close>

definition loneState :: sim where
  "loneState =
     \<lparr>numObjects = 1, dev_pos = [Vec3 0 0 0], dev_vel1 = [0],
      dev_vel2 = [0], dev_particleArrayIndices = [0], dev_particleGridIndices = [0],
      dev_gridCellStartIndices = replicate 10648 (- 1),
      dev_gridCellEndIndices = replicate 10648 (- 1),
      dev_pos_co = [0], dev_vel_co = [0], console = []\<rparr>"

section \<open>Launches and loops\<close>

lemma blocks_cover: "N \<le> blocksPerGrid N * blockSize"
proof -
  have "N + 127 = (N + 127) div 128 * 128 + (N + 127) mod 128"
    by simp
  moreover have "(N + 127) mod 128 < 128"
    by simp
  ultimately have "N \<le> (N + 127) div 128 * 128"
    by linarith
  then show ?thesis
    by (simp add: blocksPerGrid_def blockSize_def)
qed

lemma fold_idle:
  assumes "\<And>i m. i \<in> set is \<Longrightarrow> thread i m = m"
  shows "fold thread is mem = mem"
  using assms by (induction "is" arbitrary: mem) simp_all

lemma blocks_none: "blocksPerGrid 0 = 0"
  by (simp add: blocksPerGrid_def blockSize_def)

lemma launch_guarded:
  assumes idle: "\<And>i m. N \<le> i \<Longrightarrow> 0 < N \<Longrightarrow> thread i m = m"
  shows "launch (blocksPerGrid N) thread mem = fold thread [0..<N] mem"
proof (cases "N = 0")
  case True
  then show ?thesis
    by (simp add: launch_def blocks_none)
next
  case False
  let ?T = "blocksPerGrid N * blockSize"
  have "[0..<?T] = [0..<N] @ [N..<?T]"
    using blocks_cover [of N] by (metis le0 upt_add_eq_append le_add_diff_inverse)
  then have "fold thread [0..<?T] mem = fold thread [N..<?T] (fold thread [0..<N] mem)"
    by simp
  also have "\<dots> = fold thread [0..<N] mem"
    using False by (intro fold_idle) (simp add: idle)
  finally show ?thesis
    by (simp add: launch_def)
qed

lemma fold_own_slot_length:
  "length (fold (\<lambda>i m. m[i := g i (m ! i)]) [0..<n] mem) = length mem"
  by (induction n) simp_all

lemma fold_own_slot_nth:
  "k < length mem \<Longrightarrow>
   fold (\<lambda>i m. m[i := g i (m ! i)]) [0..<n] mem ! k = (if k < n then g k (mem ! k) else mem ! k)"
proof (induction n)
  case 0
  then show ?case by simp
next
  case (Suc n)
  show ?case
  proof (cases "k = n")
    case True
    with Suc show ?thesis by (simp add: fold_own_slot_length)
  next
    case False
    with Suc show ?thesis by simp
  qed
qed



lemma fold_pair_snd:
  "snd (fold (\<lambda>i m. ((fst m)[i := f i], h i (snd m))) is mem) = fold h is (snd mem)"
  by (induction "is" arbitrary: mem) simp_all

lemma fold_prod_split:
  "fold (\<lambda>i m. (F i (fst m), G i (snd m))) is (a, b) = (fold F is a, fold G is b)"
  by (induction "is" arbitrary: a b) simp_all

lemma fold_const_slots:
  "fold (\<lambda>i a. a[i := f i]) [0..<n] as =
   map (\<lambda>i. if i < n then f i else as ! i) [0..<length as]"
proof (rule nth_equalityI)
  show "length (fold (\<lambda>i a. a[i := f i]) [0..<n] as) =
        length (map (\<lambda>i. if i < n then f i else as ! i) [0..<length as])"
    using fold_own_slot_length [where g = "\<lambda>i _. f i" and n = n and mem = as] by simp
next
  fix k
  assume "k < length (fold (\<lambda>i a. a[i := f i]) [0..<n] as)"
  then have k: "k < length as"
    using fold_own_slot_length [where g = "\<lambda>i _. f i" and n = n and mem = as] by simp
  then show "fold (\<lambda>i a. a[i := f i]) [0..<n] as ! k =
             map (\<lambda>i. if i < n then f i else as ! i) [0..<length as] ! k"
    using fold_own_slot_nth [where g = "\<lambda>i _. f i" and n = n and mem = as and k = k] by simp
qed

lemma fold_two_slots:
  "fold (\<lambda>i m. ((fst m)[i := f i], (snd m)[i := g i])) [0..<n] (as, bs) =
   (map (\<lambda>i. if i < n then f i else as ! i) [0..<length as],
    map (\<lambda>i. if i < n then g i else bs ! i) [0..<length bs])"
  using fold_prod_split [where F = "\<lambda>i a. a[i := f i]" and G = "\<lambda>i b. b[i := g i]"]
  by (simp add: fold_const_slots)

lemma fold_bind_None: "fold (\<lambda>i r. r \<bind> f i) is None = None"
  by (induction "is") simp_all

lemma foldM_Nil: "foldM f [] a = Some a"
  by (simp add: foldM_def)

lemma foldM_Cons: "foldM f (i # is) a = f i a \<bind> foldM f is"
  by (cases "f i a") (simp_all add: foldM_def fold_bind_None)

lemma foldM_single: "foldM f [i] a = f i a"
  by (simp add: foldM_def)

lemma foldM_append: "foldM f (is @ js) a = foldM f is a \<bind> foldM f js"
proof (induction "is" arbitrary: a)
  case Nil
  show ?case by (simp add: foldM_Nil)
next
  case (Cons i "is")
  show ?case
    by (cases "f i a") (simp_all add: foldM_Cons Cons.IH)
qed

lemma foldM_invariant:
  assumes "foldM f is a = Some b" and "P a"
    and "\<And>i x y. i \<in> set is \<Longrightarrow> P x \<Longrightarrow> f i x = Some y \<Longrightarrow> P y"
  shows "P b"
  using assms
proof (induction "is" arbitrary: a)
  case Nil
  then show ?case by (simp add: foldM_Nil)
next
  case (Cons i "is")
  from Cons.prems(1) obtain x where x: "f i a = Some x" "foldM f is x = Some b"
    by (auto simp: foldM_Cons bind_eq_Some_conv)
  have "P x"
    using Cons.prems(2) x(1) Cons.prems(3) [of i a x] by simp
  then show ?case
    by (rule Cons.IH [OF x(2)]) (rule Cons.prems(3), simp_all)
qed

lemma launchM_guarded:
  assumes "\<And>i m. N \<le> i \<Longrightarrow> 0 < N \<Longrightarrow> thread i m = Some m"
  shows "launchM (blocksPerGrid N) thread mem = foldM thread [0..<N] mem"
proof -
  have "launch (blocksPerGrid N) (\<lambda>i r. r \<bind> thread i) (Some mem) =
        fold (\<lambda>i r. r \<bind> thread i) [0..<N] (Some mem)"
  proof (rule launch_guarded)
    fix i and r :: "'a option"
    assume "N \<le> i" and "0 < N"
    then have "thread i = Some"
      using assms by auto
    then show "r \<bind> thread i = r"
      by simp
  qed
  then show ?thesis
    by (simp add: launchM_def foldM_def)
qed


lemma upt_2: "[0..<2] = [0, 1]"
  by (simp add: numeral_2_eq_2 upt_rec)

lemma upto_0_1: "[0..1] = [0, 1]"
  by (simp add: upto_rec1)

lemma upto_m1: "[- 1..- 1] = [- 1]"
  by (simp add: upto_rec1)

section \<open>Vectors and the speed limit\<close>

lemma glm_dot_nonneg: "0 \<le> glm_dot v v"
  by (simp add: glm_dot_def)

lemma glm_length_nonneg: "0 \<le> glm_length v"
  by (simp add: glm_length_def glm_dot_nonneg)

lemma glm_length_vscale: "glm_length (vscale v s) = \<bar>s\<bar> * glm_length v"
proof -
  have "glm_dot (vscale v s) (vscale v s) = s\<^sup>2 * glm_dot v v"
    by (simp add: glm_dot_def vscale_def power2_eq_square algebra_simps)
  then show ?thesis
    by (simp add: glm_length_def real_sqrt_mult)
qed

lemma vscale_vscale: "vscale (vscale v a) b = vscale v (a * b)"
  by (simp add: vscale_def mult.assoc)

lemma normalize_scaled: "vscale (glm_normalize v) m = vscale v (m / glm_length v)"
  by (simp add: glm_normalize_def vscale_vscale glm_length_def)

lemma fst_limitSpeed: "fst (limitSpeed v) = limited v"
  by (simp add: limitSpeed_def limited_def Let_def normalize_scaled)

lemma glm_length_limited_over:
  assumes "glm_length v > maxSpeed"
  shows "glm_length (limited v) = maxSpeed"
proof -
  have pos: "0 < glm_length v"
    using assms by (simp add: maxSpeed_def)
  have "glm_length (limited v) = \<bar>maxSpeed / glm_length v\<bar> * glm_length v"
    using assms by (simp add: limited_def glm_length_vscale)
  also have "\<dots> = maxSpeed"
    using pos by (simp add: maxSpeed_def)
  finally show ?thesis .
qed

lemma glm_length_limited: "glm_length (limited v) \<le> maxSpeed"
proof (cases "glm_length v > maxSpeed")
  case True
  then show ?thesis by (simp add: glm_length_limited_over)
next
  case False
  then show ?thesis by (simp add: limited_def)
qed

lemma component_le_length:
  "vx v \<le> glm_length v" "vy v \<le> glm_length v" "vz v \<le> glm_length v"
proof -
  have "\<bar>vx v\<bar> = sqrt ((vx v)\<^sup>2)" "\<bar>vy v\<bar> = sqrt ((vy v)\<^sup>2)" "\<bar>vz v\<bar> = sqrt ((vz v)\<^sup>2)"
    by simp_all
  moreover have "sqrt ((vx v)\<^sup>2) \<le> glm_length v" "sqrt ((vy v)\<^sup>2) \<le> glm_length v"
    "sqrt ((vz v)\<^sup>2) \<le> glm_length v"
    unfolding glm_length_def glm_dot_def
    by (rule real_sqrt_le_mono, simp add: power2_eq_square)+
  ultimately show "vx v \<le> glm_length v" "vy v \<le> glm_length v" "vz v \<le> glm_length v"
    by linarith+
qed

lemma limitSpeed_silent: "snd (limitSpeed v) = False"
proof -
  have "glm_length (fst (limitSpeed v)) \<le> maxSpeed"
    by (simp add: fst_limitSpeed glm_length_limited)
  then have "vx (fst (limitSpeed v)) \<le> maxSpeed" "vy (fst (limitSpeed v)) \<le> maxSpeed"
    "vz (fst (limitSpeed v)) \<le> maxSpeed"
    using component_le_length [of "fst (limitSpeed v)"] by linarith+
  then show ?thesis
    by (simp add: limitSpeed_def Let_def not_less [symmetric])
qed

lemma report_silent: "report (snd (limitSpeed v)) out = out"
  by (simp add: report_def limitSpeed_silent)

lemma glm_length_axis: "glm_length (Vec3 a 0 0) = \<bar>a\<bar>"
  by (simp add: glm_length_def glm_dot_def)

lemma glm_distance_less_iff:
  "0 < d \<Longrightarrow> glm_distance p q < d \<longleftrightarrow> glm_dot (q - p) (q - p) < d\<^sup>2"
  by (metis glm_distance_def glm_length_def real_sqrt_less_iff real_sqrt_abs abs_of_pos)







section \<open>Rounding to binary32\<close>

text \<open>
  The distance between neighbours found from the binade of the argument, rounding to the
  nearest integer from two bounds, and with them the rounded square root from the two
  squares that enclose its argument; \<^verbatim>\<open>0.1f\<close> is \<open>13421773 / 2 ^ 27\<close>, the
  bit pattern \<^verbatim>\<open>0x3DCCCCCD\<close>. Then the brute-force kernel in binary32 on one boid
  with velocity \<open>(0.5, 5.5, 0)\<close>, operation by operation.
\<close>

lemma spacing_numeral:
  "spacing (numeral n) u a = (if 2 ^ 24 * u \<le> a then spacing (pred_numeral n) (2 * u) a else u)"
  by (simp add: numeral_eq_Suc)







lemmas fl_eval = fl_def ulp_def spacing_numeral rne_def Let_def

lemma fl_tenth: "fl (1 / 10) = 13421773 / 2 ^ 27"
  by (simp add: fl_eval)













section \<open>The kernels, thread by thread\<close>

text \<open>
  Each kernel leaves the threads from \<open>N\<close> on idle, so a launch is the run of the
  threads \<open>0, \<dots>, N - 1\<close>; where a thread writes its own slot only, the launch is a map
  over the slots.
\<close>

lemma kernUpdatePos_fold:
  "kernUpdatePos N dt pos vel =
   fold (\<lambda>i m. m[i := wrapPos (m ! i + vscale (vel ! i) dt)]) [0..<N] pos"
proof -
  have "kernUpdatePos N dt pos vel = fold (kernUpdatePos_thread N dt vel) [0..<N] pos"
    unfolding kernUpdatePos_def
    by (rule launch_guarded) (simp add: kernUpdatePos_thread_def)
  also have "\<dots> = fold (\<lambda>i m. m[i := wrapPos (m ! i + vscale (vel ! i) dt)]) [0..<N] pos"
    by (rule fold_cong) (simp_all add: kernUpdatePos_thread_def Let_def fun_eq_iff)
  finally show ?thesis .
qed

lemma length_kernUpdatePos [simp]: "length (kernUpdatePos N dt pos vel) = length pos"
  unfolding kernUpdatePos_fold
  by (rule fold_own_slot_length [where g = "\<lambda>i p. wrapPos (p + vscale (vel ! i) dt)"])


lemma kernUpdatePos_2:
  "kernUpdatePos 2 dt [p, q] [v, w] = [wrapPos (p + vscale v dt), wrapPos (q + vscale w dt)]"
  by (simp add: kernUpdatePos_fold upt_2)




lemma zero_dt_wraps_outside:
  "kernUpdatePos 1 0 [Vec3 150 0 0] [Vec3 0 0 0] = [Vec3 (- 100) 0 0]"
  by (simp add: kernUpdatePos_fold vscale_def plus_vec3_def wrapPos_def scene_scale_def)

lemma kernUpdateVelocityBruteForce_fold:
  "kernUpdateVelocityBruteForce N pos vel1 mem =
   fold (\<lambda>i m. ((fst m)[i := fst (limitSpeed (computeVelocityChange N i pos vel1 + vel1 ! i))],
                 report (snd (limitSpeed (computeVelocityChange N i pos vel1 + vel1 ! i))) (snd m)))
     [0..<N] mem"
proof -
  have "kernUpdateVelocityBruteForce N pos vel1 mem =
        fold (kernUpdateVelocityBruteForce_thread N pos vel1) [0..<N] mem"
    unfolding kernUpdateVelocityBruteForce_def
    by (rule launch_guarded) (simp add: kernUpdateVelocityBruteForce_thread_def)
  also have "\<dots> = fold (\<lambda>i m. ((fst m)[i := fst (limitSpeed (computeVelocityChange N i pos vel1 + vel1 ! i))],
                 report (snd (limitSpeed (computeVelocityChange N i pos vel1 + vel1 ! i))) (snd m)))
     [0..<N] mem"
    by (rule fold_cong) (simp_all add: kernUpdateVelocityBruteForce_thread_def Let_def fun_eq_iff)
  finally show ?thesis .
qed


lemma kernUpdateVelocityBruteForce_console:
  "snd (kernUpdateVelocityBruteForce N pos vel1 (vel2, out)) = out"
  unfolding kernUpdateVelocityBruteForce_fold report_silent
  using fold_pair_snd [where h = "\<lambda>i out. out" and mem = "(vel2, out)"]
  by (simp add: fold_idle)



lemma kernComputeIndices_eq:
  assumes "length indices = N" and "length gridIndices = N"
  shows "kernComputeIndices N res gmin icw pos (indices, gridIndices) =
         (map int [0..<N], map (\<lambda>i. cellIndex res gmin icw (pos ! i)) [0..<N])"
proof -
  have "kernComputeIndices N res gmin icw pos (indices, gridIndices) =
        fold (kernComputeIndices_thread N res gmin icw pos) [0..<N] (indices, gridIndices)"
    unfolding kernComputeIndices_def
    by (rule launch_guarded) (simp add: kernComputeIndices_thread_def)
  also have "\<dots> = fold (\<lambda>i m. ((fst m)[i := int i], (snd m)[i := cellIndex res gmin icw (pos ! i)]))
                     [0..<N] (indices, gridIndices)"
    by (rule fold_cong)
      (simp_all add: kernComputeIndices_thread_def fun_eq_iff)
  also have "\<dots> = (map int [0..<N], map (\<lambda>i. cellIndex res gmin icw (pos ! i)) [0..<N])"
    using assms by (simp add: fold_two_slots)
  finally show ?thesis .
qed

lemma kernResetIntBuffer_eq:
  "kernResetIntBuffer N buf v =
   (if N \<le> length buf then Some (replicate N v @ drop N buf) else None)"
proof -
  have step: "foldM (kernResetIntBuffer_thread N v) [0..<n] buf =
              (if n \<le> length buf then Some (replicate n v @ drop n buf) else None)"
    if "n \<le> N" for n
    using that
  proof (induction n)
    case 0
    show ?case by (simp add: foldM_Nil)
  next
    case (Suc n)
    then have ih: "foldM (kernResetIntBuffer_thread N v) [0..<n] buf =
                   (if n \<le> length buf then Some (replicate n v @ drop n buf) else None)"
      by simp
    have upd: "(replicate n v @ drop n buf)[n := v] = replicate (Suc n) v @ drop (Suc n) buf"
      if "n < length buf"
      using that
      by (simp add: list_update_append replicate_append_same upd_conv_take_nth_drop
          flip: replicate_Suc)
    have "foldM (kernResetIntBuffer_thread N v) [0..<Suc n] buf =
          (if n \<le> length buf then Some (replicate n v @ drop n buf) else None) \<bind>
          (\<lambda>b. kernResetIntBuffer_thread N v n b)"
      by (simp add: foldM_append ih foldM_single [abs_def])
    also have "\<dots> = (if Suc n \<le> length buf
                      then Some (replicate (Suc n) v @ drop (Suc n) buf) else None)"
      using Suc.prems upd
      by (auto simp: kernResetIntBuffer_thread_def wr_def)
    finally show ?case .
  qed
  have "kernResetIntBuffer N buf v = foldM (kernResetIntBuffer_thread N v) [0..<N] buf"
    unfolding kernResetIntBuffer_def
    by (rule launchM_guarded) (simp add: kernResetIntBuffer_thread_def)
  then show ?thesis
    by (simp add: step)
qed

lemma kernResetIntBuffer_updates:
  assumes "N \<le> length buf"
  shows "kernResetIntBuffer N buf v = Some (fold (\<lambda>i b. b[i := v]) [0..<N] buf)"
proof -
  have "fold (\<lambda>i b. b[i := v]) [0..<N] buf = replicate N v @ drop N buf"
  proof (rule nth_equalityI)
    show "length (fold (\<lambda>i b. b[i := v]) [0..<N] buf) = length (replicate N v @ drop N buf)"
      using assms by (simp add: fold_const_slots)
  next
    fix k
    assume "k < length (fold (\<lambda>i b. b[i := v]) [0..<N] buf)"
    then have "k < length buf"
      by (simp add: fold_const_slots)
    then show "fold (\<lambda>i b. b[i := v]) [0..<N] buf ! k = (replicate N v @ drop N buf) ! k"
      using assms by (simp add: fold_const_slots nth_append)
  qed
  then show ?thesis
    using assms by (simp add: kernResetIntBuffer_eq)
qed

lemma kernIdentifyCellStartEnd_threads:
  "kernIdentifyCellStartEnd N pgi mem = foldM (kernIdentifyCellStartEnd_thread N pgi) [0..<N] mem"
  unfolding kernIdentifyCellStartEnd_def
  by (rule launchM_guarded) (auto simp: kernIdentifyCellStartEnd_thread_def)

lemma kernUpdateVelNeighborSearchScattered_threads:
  "kernUpdateVelNeighborSearchScattered N res gmin icw cw starts ends pai pos vel1 mem =
   foldM (kernUpdateVelNeighborSearchScattered_thread N res gmin icw cw starts ends pai pos vel1)
     [0..<N] mem"
  unfolding kernUpdateVelNeighborSearchScattered_def
  by (rule launchM_guarded) (simp add: kernUpdateVelNeighborSearchScattered_thread_def)

lemma scattered_thread_console:
  assumes "kernUpdateVelNeighborSearchScattered_thread N res gmin icw cw starts ends pai pos vel1 i m
           = Some m'"
  shows "snd m' = snd m"
  using assms
  by (auto simp: kernUpdateVelNeighborSearchScattered_thread_def Let_def report_silent
      bind_eq_Some_conv split: if_splits)

lemma kernUpdateVelNeighborSearchScattered_console:
  assumes "kernUpdateVelNeighborSearchScattered N res gmin icw cw starts ends pai pos vel1
             (vel2, out) = Some m'"
  shows "snd m' = out"
proof -
  have idle: "\<And>i m. N \<le> i \<Longrightarrow>
      kernUpdateVelNeighborSearchScattered_thread N res gmin icw cw starts ends pai pos vel1 i m = Some m"
    by (simp add: kernUpdateVelNeighborSearchScattered_thread_def)
  have "foldM (kernUpdateVelNeighborSearchScattered_thread N res gmin icw cw starts ends pai pos vel1)
          [0..<N] (vel2, out) = Some m'"
    using assms launchM_guarded [OF idle]
    by (simp add: kernUpdateVelNeighborSearchScattered_def)
  then show ?thesis
    by (rule foldM_invariant [where P = "\<lambda>m. snd m = out"])
      (auto dest: scattered_thread_console)
qed

lemma kernUpdateVelNeighborSearchCoherent_threads:
  "kernUpdateVelNeighborSearchCoherent N res gmin icw cw starts ends pos vel1 mem =
   foldM (kernUpdateVelNeighborSearchCoherent_thread N res gmin icw cw starts ends pos vel1)
     [0..<N] mem"
  unfolding kernUpdateVelNeighborSearchCoherent_def
  by (rule launchM_guarded) (simp add: kernUpdateVelNeighborSearchCoherent_thread_def)

lemma kernPropogateCoherency_threads:
  "kernPropogateCoherency N pai pos vel mem =
   foldM (kernPropogateCoherency_thread N pai pos vel) [0..<N] mem"
  unfolding kernPropogateCoherency_def
  by (rule launchM_guarded) (simp add: kernPropogateCoherency_thread_def)

lemma coherency_prefix:
  assumes "foldM (kernPropogateCoherency_thread N pai pos vel) [0..<n] (pos2, vel2) = Some (p, v)"
    and "n \<le> N" and "N \<le> length pai"
  shows "length p = length pos2 \<and> length v = length vel2 \<and>
         (\<forall>i<n. 0 \<le> pai ! i \<and> pai ! i < int (length pos) \<and> i < length pos2 \<and>
                 p ! i = pos ! nat (pai ! i) \<and> v ! i = vel ! nat (pai ! i))"
  using assms
proof (induction n arbitrary: p v)
  case 0
  then show ?case by (simp add: foldM_Nil)
next
  case (Suc n)
  from Suc.prems(1) obtain p0 v0 where
    prev: "foldM (kernPropogateCoherency_thread N pai pos vel) [0..<n] (pos2, vel2) = Some (p0, v0)"
    and last: "kernPropogateCoherency_thread N pai pos vel n (p0, v0) = Some (p, v)"
    by (auto simp: foldM_append foldM_single [abs_def] bind_eq_Some_conv)
  have ih: "length p0 = length pos2 \<and> length v0 = length vel2 \<and>
         (\<forall>i<n. 0 \<le> pai ! i \<and> pai ! i < int (length pos) \<and> i < length pos2 \<and>
                 p0 ! i = pos ! nat (pai ! i) \<and> v0 ! i = vel ! nat (pai ! i))"
    using Suc.IH [OF prev] Suc.prems by simp
  have n: "n < N" "n < length pai"
    using Suc.prems by simp_all
  from last n have upd: "0 \<le> pai ! n" "pai ! n < int (length pos)" "n < length p0"
    "p = p0[n := pos ! nat (pai ! n)]" "v = v0[n := vel ! nat (pai ! n)]" "n < length v0"
    by (auto simp: kernPropogateCoherency_thread_def rd_def wr_def bind_eq_Some_conv
        split: if_splits)
  show ?case
    using ih upd by (auto simp: less_Suc_eq nth_list_update)
qed

lemma kernPropogateCoherency_Some:
  assumes "kernPropogateCoherency N pai pos vel (pos2, vel2) = Some (p, v)"
    and "length pai = N" and "length pos2 = N" and "length vel2 = N"
  shows "p = map (\<lambda>k. pos ! nat k) pai" and "v = map (\<lambda>k. vel ! nat k) pai"
    and "\<forall>k \<in> set pai. 0 \<le> k \<and> k < int (length pos)"
proof -
  have pre: "length p = length pos2 \<and> length v = length vel2 \<and>
         (\<forall>i<N. 0 \<le> pai ! i \<and> pai ! i < int (length pos) \<and> i < length pos2 \<and>
                 p ! i = pos ! nat (pai ! i) \<and> v ! i = vel ! nat (pai ! i))"
    using assms coherency_prefix [of N pai pos vel N pos2 vel2 p v]
    by (simp add: kernPropogateCoherency_threads)
  show "p = map (\<lambda>k. pos ! nat k) pai"
    using pre assms by (simp add: list_eq_iff_nth_eq)
  show "v = map (\<lambda>k. vel ! nat k) pai"
    using pre assms by (simp add: list_eq_iff_nth_eq)
  show "\<forall>k \<in> set pai. 0 \<le> k \<and> k < int (length pos)"
    using pre assms by (auto simp: in_set_conv_nth)
qed

lemma shared_sign:
  "(if c then - 1 else if b then - 1 else if a then - 1 else 1) =
   (if a \<or> b \<or> c then - 1 else (1::int))"
  by simp

lemma calculateBoidNeighborCells_signs:
  "calculateBoidNeighborCells spacialIndex gridResolution =
     (let aux = spacialIndex - to_vec3 (to_ivec3 spacialIndex);
          x = (if vx aux < 1 / 2 \<or> vy aux < 1 / 2 \<or> vz aux < 1 / 2 then - 1 else 1);
          diffs = [IVec3 0 0 0, IVec3 x 0 0, IVec3 0 1 0, IVec3 0 0 1,
                   IVec3 x 1 0, IVec3 0 1 1, IVec3 x 0 1, IVec3 x 1 1]
      in map (\<lambda>d. let toEval = ivec3_add (to_ivec3 spacialIndex) d
                  in if ix toEval < 0 \<or> ix toEval \<ge> gridResolution \<or>
                        iy toEval < 0 \<or> iy toEval \<ge> gridResolution \<or>
                        iz toEval < 0 \<or> iz toEval \<ge> gridResolution
                     then - 1
                     else gridIndex3Dto1D (ix toEval) (iy toEval) (iz toEval) gridResolution)
           diffs)"
  unfolding calculateBoidNeighborCells_def Let_def shared_sign ..

section \<open>The grid of the configuration\<close>

lemma grid_values:
  "gridCellWidth = 10" "halfSideCount = 11" "gridSideCount = 22" "gridCellCount = 10648"
  "gridInverseCellWidth = 1 / 10" "gridMinimum = Vec3 (- 110) (- 110) (- 110)"
proof -
  show w: "gridCellWidth = 10"
    by (simp add: gridCellWidth_def rule1Distance_def rule2Distance_def rule3Distance_def)
  show h: "halfSideCount = 11"
    by (simp add: halfSideCount_def w scene_scale_def trunc_def)
  show s: "gridSideCount = 22"
    by (simp add: gridSideCount_def h)
  show "gridCellCount = 10648"
    by (simp add: gridCellCount_def s)
  show "gridInverseCellWidth = 1 / 10"
    by (simp add: gridInverseCellWidth_def w)
  show "gridMinimum = Vec3 (- 110) (- 110) (- 110)"
    by (simp add: gridMinimum_def halfGridWidth_def w h)
qed

lemma trunc_nonneg: "0 \<le> r \<Longrightarrow> trunc r = \<lfloor>r\<rfloor>"
  by (simp add: trunc_def)

lemma cell_coordinate:
  assumes "- scene_scale \<le> x" and "x \<le> scene_scale"
  shows "1 \<le> trunc ((110 + x) * (1 / 10))" and "trunc ((110 + x) * (1 / 10)) \<le> 21"
proof -
  have r: "10 \<le> 110 + x" "110 + x \<le> 210"
    using assms by (simp_all add: scene_scale_def)
  then have nn: "0 \<le> (110 + x) * (1 / 10)"
    by simp
  have "1 \<le> \<lfloor>(110 + x) * (1 / 10)\<rfloor>"
    using r by (simp add: le_floor_iff)
  then show "1 \<le> trunc ((110 + x) * (1 / 10))"
    unfolding trunc_nonneg [OF nn] .
  have "\<lfloor>(110 + x) * (1 / 10)\<rfloor> \<le> 21"
    using r by (simp add: floor_le_iff)
  then show "trunc ((110 + x) * (1 / 10)) \<le> 21"
    unfolding trunc_nonneg [OF nn] .
qed

lemma cellIndex_in_table:
  assumes "inScene p"
  shows "0 \<le> cellIndex gridSideCount gridMinimum gridInverseCellWidth p"
    and "cellIndex gridSideCount gridMinimum gridInverseCellWidth p < gridCellCount"
proof -
  obtain x y z where p: "p = Vec3 x y z"
    by (cases p)
  let ?a = "trunc ((110 + x) * (1 / 10))"
  let ?b = "trunc ((110 + y) * (1 / 10))"
  let ?c = "trunc ((110 + z) * (1 / 10))"
  have a: "1 \<le> ?a" "?a \<le> 21" and b: "1 \<le> ?b" "?b \<le> 21" and c: "1 \<le> ?c" "?c \<le> 21"
    using assms cell_coordinate by (simp_all add: p inScene_def)
  have eq: "cellIndex gridSideCount gridMinimum gridInverseCellWidth p = ?a + ?b * 22 + ?c * 22 * 22"
    by (simp add: p cellIndex_def grid_values to_ivec3_def vscale_def plus_vec3_def
        uminus_vec3_def gridIndex3Dto1D_def Let_def)
  show "0 \<le> cellIndex gridSideCount gridMinimum gridInverseCellWidth p"
    unfolding eq using a b c by linarith
  show "cellIndex gridSideCount gridMinimum gridInverseCellWidth p < gridCellCount"
    unfolding eq unfolding grid_values using a b c by linarith
qed

section \<open>Stages and steps\<close>

text \<open>
  What each stage leaves alone, the slot buffer after labelling and sorting, and the
  velocity buffer that the integrator of each step reads.
\<close>

lemma stageIndices_frame:
  "numObjects (stageIndices s) = numObjects s" "dev_pos (stageIndices s) = dev_pos s"
  "dev_vel1 (stageIndices s) = dev_vel1 s" "dev_vel2 (stageIndices s) = dev_vel2 s"
  "dev_gridCellStartIndices (stageIndices s) = dev_gridCellStartIndices s"
  "dev_gridCellEndIndices (stageIndices s) = dev_gridCellEndIndices s"
  "dev_pos_co (stageIndices s) = dev_pos_co s" "dev_vel_co (stageIndices s) = dev_vel_co s"
  "console (stageIndices s) = console s"
  by (simp_all add: stageIndices_def Let_def)

lemma stageReset_frame:
  assumes "stageReset s = Some s'"
  shows "numObjects s' = numObjects s" "dev_pos s' = dev_pos s" "dev_vel1 s' = dev_vel1 s"
    "dev_vel2 s' = dev_vel2 s" "dev_particleArrayIndices s' = dev_particleArrayIndices s"
    "dev_particleGridIndices s' = dev_particleGridIndices s"
    "dev_pos_co s' = dev_pos_co s" "dev_vel_co s' = dev_vel_co s" "console s' = console s"
  using assms by (auto simp: stageReset_def bind_eq_Some_conv)

lemma stageReset_entries:
  assumes "stageReset s = Some s'"
  shows "numObjects s \<le> length (dev_gridCellStartIndices s)"
    and "numObjects s \<le> length (dev_gridCellEndIndices s)"
    and "dev_gridCellStartIndices s' =
           replicate (numObjects s) (- 1) @ drop (numObjects s) (dev_gridCellStartIndices s)"
    and "dev_gridCellEndIndices s' =
           replicate (numObjects s) (- 1) @ drop (numObjects s) (dev_gridCellEndIndices s)"
  using assms
  by (auto simp: stageReset_def kernResetIntBuffer_eq bind_eq_Some_conv split: if_splits)

lemma stageReset_keeps:
  assumes "stageReset s = Some s'" and "numObjects s \<le> c"
    and "c < length (dev_gridCellStartIndices s)" and "c < length (dev_gridCellEndIndices s)"
  shows "dev_gridCellStartIndices s' ! c = dev_gridCellStartIndices s ! c"
    and "dev_gridCellEndIndices s' ! c = dev_gridCellEndIndices s ! c"
  using assms stageReset_entries [OF assms(1)]
  by (simp_all add: nth_append)

lemma stageReset_overrun:
  assumes "int (length (dev_gridCellStartIndices s)) = gridCellCount"
    and "gridCellCount < int (numObjects s)"
  shows "stageReset s = None"
  using assms
  by (auto simp: stageReset_def kernResetIntBuffer_eq bind_eq_None_conv)

lemma stageCellStartEnd_frame:
  assumes "stageCellStartEnd s = Some s'"
  shows "numObjects s' = numObjects s" "dev_pos s' = dev_pos s" "dev_vel1 s' = dev_vel1 s"
    "dev_vel2 s' = dev_vel2 s" "dev_particleArrayIndices s' = dev_particleArrayIndices s"
    "dev_particleGridIndices s' = dev_particleGridIndices s"
    "dev_pos_co s' = dev_pos_co s" "dev_vel_co s' = dev_vel_co s" "console s' = console s"
  using assms by (auto simp: stageCellStartEnd_def bind_eq_Some_conv)

lemma stageSearchScattered_frame:
  assumes "stageSearchScattered s = Some s'"
  shows "numObjects s' = numObjects s" "dev_pos s' = dev_pos s" "dev_vel1 s' = dev_vel1 s"
  using assms by (auto simp: stageSearchScattered_def bind_eq_Some_conv)

lemma stageCoherency_frame:
  assumes "stageCoherency s = Some s'"
  shows "numObjects s' = numObjects s" "dev_pos s' = dev_pos s"
    "dev_particleArrayIndices s' = dev_particleArrayIndices s"
  using assms by (auto simp: stageCoherency_def bind_eq_Some_conv)

lemma stageSearchCoherent_frame:
  assumes "stageSearchCoherent s = Some s'"
  shows "numObjects s' = numObjects s" "dev_pos s' = dev_pos s" "dev_pos_co s' = dev_pos_co s"
    "dev_particleArrayIndices s' = dev_particleArrayIndices s"
  using assms by (auto simp: stageSearchCoherent_def bind_eq_Some_conv)

lemma mset_sorted_values:
  assumes "length ks = length vs"
  shows "mset (map snd (sort_key fst (zip ks vs))) = mset vs"
proof -
  have "mset (map snd (sort_key fst (zip ks vs))) = image_mset snd (mset (sort_key fst (zip ks vs)))"
    by (rule mset_map)
  also have "\<dots> = image_mset snd (mset (zip ks vs))"
    by (simp only: mset_sort)
  also have "\<dots> = mset (map snd (zip ks vs))"
    by (rule mset_map [symmetric])
  also have "\<dots> = mset vs"
    using assms by (simp only: map_snd_zip)
  finally show ?thesis .
qed

lemma stageIndices_slots:
  assumes "length (dev_particleArrayIndices s) = numObjects s"
    and "length (dev_particleGridIndices s) = numObjects s"
  shows "dev_particleArrayIndices (stageIndices s) =
         map snd (sort_key fst (zip (map (\<lambda>i. cellIndex gridSideCount gridMinimum
                     gridInverseCellWidth (dev_pos s ! i)) [0..<numObjects s])
                   (map int [0..<numObjects s])))"
    and "length (dev_particleArrayIndices (stageIndices s)) = numObjects s"
    and "mset (dev_particleArrayIndices (stageIndices s)) = mset (map int [0..<numObjects s])"
proof -
  let ?cells = "map (\<lambda>i. cellIndex gridSideCount gridMinimum gridInverseCellWidth (dev_pos s ! i))
                  [0..<numObjects s]"
  let ?slots = "map int [0..<numObjects s]"
  show eq: "dev_particleArrayIndices (stageIndices s) = map snd (sort_key fst (zip ?cells ?slots))"
    using assms
    by (simp add: stageIndices_def Let_def kernComputeIndices_eq sort_by_key_def)
  show "length (dev_particleArrayIndices (stageIndices s)) = numObjects s"
    by (simp add: eq)
  have "mset (map snd (sort_key fst (zip ?cells ?slots))) = mset ?slots"
    by (rule mset_sorted_values) simp
  then show "mset (dev_particleArrayIndices (stageIndices s)) = mset ?slots"
    unfolding eq .
qed

lemma stageIndices_eval:
  assumes "length (dev_particleArrayIndices s) = numObjects s"
    and "length (dev_particleGridIndices s) = numObjects s"
  shows "stageIndices s =
         (let cells = map (\<lambda>i. cellIndex 22 (Vec3 (- 110) (- 110) (- 110)) (1 / 10) (dev_pos s ! i))
                        [0..<numObjects s];
              sorted = sort_by_key cells (map int [0..<numObjects s])
          in s\<lparr>dev_particleArrayIndices := snd sorted, dev_particleGridIndices := fst sorted\<rparr>)"
  using assms
  by (simp add: stageIndices_def Let_def kernComputeIndices_eq grid_values)

lemma scattered_step_stages:
  "stepSimulationScatteredGrid dt s =
   stageReset (stageIndices s) \<bind> stageCellStartEnd \<bind> stageSearchScattered \<bind>
   (\<lambda>s4. Some (s4\<lparr>dev_pos := kernUpdatePos (numObjects s4) dt (dev_pos s4) (dev_vel2 s4),
                    dev_vel1 := dev_vel2 s4, dev_vel2 := dev_vel1 s4\<rparr>))"
  by (simp add: stepSimulationScatteredGrid_def Let_def)

lemma coherent_step_stages:
  "stepSimulationCoherentGrid dt s =
   stageReset s \<bind> (\<lambda>s1. stageCellStartEnd (stageIndices s1)) \<bind> stageCoherency \<bind>
   stageSearchCoherent \<bind>
   (\<lambda>s5. Some (s5\<lparr>dev_pos := kernUpdatePos (numObjects s5) dt (dev_pos_co s5) (dev_vel1 s5),
                    dev_pos_co := dev_pos s5, dev_vel_co := dev_vel2 s5,
                    dev_vel2 := dev_vel_co s5\<rparr>))"
  by (simp add: stepSimulationCoherentGrid_def Let_def)


lemma scattered_positions:
  assumes "stepSimulationScatteredGrid dt s = Some s'"
  shows "dev_pos s' = kernUpdatePos (numObjects s) dt (dev_pos s) (dev_vel1 s')"
proof -
  from assms obtain s2 s3 s4 where st:
    "stageReset (stageIndices s) = Some s2" "stageCellStartEnd s2 = Some s3"
    "stageSearchScattered s3 = Some s4"
    and s': "s' = s4\<lparr>dev_pos := kernUpdatePos (numObjects s4) dt (dev_pos s4) (dev_vel2 s4),
                     dev_vel1 := dev_vel2 s4, dev_vel2 := dev_vel1 s4\<rparr>"
    by (auto simp: stepSimulationScatteredGrid_def bind_eq_Some_conv Let_def)
  have "numObjects s4 = numObjects s" "dev_pos s4 = dev_pos s"
    using stageSearchScattered_frame [OF st(3)] stageCellStartEnd_frame [OF st(2)]
      stageReset_frame [OF st(1)] stageIndices_frame [of s]
    by simp_all
  then show ?thesis
    by (simp add: s')
qed

lemma coherent_positions:
  assumes step: "stepSimulationCoherentGrid dt s = Some s'" and alloc: "allocated s"
  shows "dev_pos s' = kernUpdatePos (numObjects s) dt
           (map (\<lambda>k. dev_pos s ! nat k) (dev_particleArrayIndices s')) (dev_vel1 s')"
    and "mset (dev_particleArrayIndices s') = mset (map int [0..<numObjects s])"
    and "\<forall>k \<in> set (dev_particleArrayIndices s'). 0 \<le> k \<and> k < int (numObjects s)"
proof -
  from step obtain s1 s3 s4 s5 where st:
    "stageReset s = Some s1" "stageCellStartEnd (stageIndices s1) = Some s3"
    "stageCoherency s3 = Some s4" "stageSearchCoherent s4 = Some s5"
    and s': "s' = s5\<lparr>dev_pos := kernUpdatePos (numObjects s5) dt (dev_pos_co s5) (dev_vel1 s5),
                     dev_pos_co := dev_pos s5, dev_vel_co := dev_vel2 s5,
                     dev_vel2 := dev_vel_co s5\<rparr>"
    by (auto simp: stepSimulationCoherentGrid_def bind_eq_Some_conv Let_def)
  note r = stageReset_frame [OF st(1)]
  note c = stageCellStartEnd_frame [OF st(2)]
  have len1: "length (dev_particleArrayIndices s1) = numObjects s1"
    "length (dev_particleGridIndices s1) = numObjects s1"
    using alloc r by (simp_all add: allocated_def)
  have slots3: "dev_particleArrayIndices s3 = dev_particleArrayIndices (stageIndices s1)"
    "numObjects s3 = numObjects s" "dev_pos s3 = dev_pos s"
    "dev_pos_co s3 = dev_pos_co s" "dev_vel_co s3 = dev_vel_co s"
    using c r stageIndices_frame [of s1] by simp_all
  have len3: "length (dev_particleArrayIndices s3) = numObjects s"
    and ms3: "mset (dev_particleArrayIndices s3) = mset (map int [0..<numObjects s])"
    using stageIndices_slots(2,3) [OF len1] r(1) slots3(1) by simp_all
  from st(3) obtain p v where
    co: "kernPropogateCoherency (numObjects s) (dev_particleArrayIndices s3) (dev_pos s)
           (dev_vel1 s3) (dev_pos_co s, dev_vel_co s) = Some (p, v)"
    and s4: "s4 = s3\<lparr>dev_pos_co := p, dev_vel_co := v\<rparr>"
    by (auto simp: stageCoherency_def bind_eq_Some_conv slots3)
  have p: "p = map (\<lambda>k. dev_pos s ! nat k) (dev_particleArrayIndices s3)"
    and rng: "\<forall>k \<in> set (dev_particleArrayIndices s3). 0 \<le> k \<and> k < int (length (dev_pos s))"
    using kernPropogateCoherency_Some [OF co len3] alloc by (simp_all add: allocated_def)
  have s5: "dev_pos_co s5 = p" "numObjects s5 = numObjects s"
    "dev_particleArrayIndices s5 = dev_particleArrayIndices s3"
    using stageSearchCoherent_frame [OF st(4)] s4 slots3 by simp_all
  show "dev_pos s' = kernUpdatePos (numObjects s) dt
          (map (\<lambda>k. dev_pos s ! nat k) (dev_particleArrayIndices s')) (dev_vel1 s')"
    by (simp add: s' s5 p)
  show "mset (dev_particleArrayIndices s') = mset (map int [0..<numObjects s])"
    by (simp add: s' s5 ms3)
  show "\<forall>k \<in> set (dev_particleArrayIndices s'). 0 \<le> k \<and> k < int (numObjects s)"
    using rng alloc by (simp add: s' s5 allocated_def)
qed

lemma rangeTotal_sparse:
  assumes "\<forall>c<length starts. c \<notin> set ks \<longrightarrow> starts ! c = - 1"
    and "distinct ks" and "\<forall>k \<in> set ks. k < length starts"
  shows "rangeTotal starts ends = sum_list (map (cellRange starts ends) ks)"
proof -
  have "rangeTotal starts ends = sum (cellRange starts ends) (set [0..<length starts])"
    unfolding rangeTotal_def by (rule sum_list_distinct_conv_sum_set) simp
  also have "\<dots> = sum (cellRange starts ends) (set ks)"
    using assms by (intro sum.mono_neutral_right) (auto simp: cellRange_def)
  also have "\<dots> = sum_list (map (cellRange starts ends) ks)"
    using assms(2) by (rule sum_list_distinct_conv_sum_set [symmetric])
  finally show ?thesis .
qed

section \<open>The boundary-table build on sorted labels\<close>

text \<open>
  \<open>runInvariant gs M n\<close> holds of the two tables after the threads \<open>0, \<dots>, n - 1\<close> of
  \<^verbatim>\<open>kernIdentifyCellStartEnd\<close> on sorted labels \<open>gs\<close> and tables that held \<open>-1\<close>
  throughout: the run of the label of entry \<open>n - 1\<close> is open, its start is written and
  its end is not (unless \<open>n - 1\<close> is the last entry of at least two), and the ranges of
  the closed runs add up to the start of the open one. So the ranges add up to \<open>N\<close> for
  \<open>N \<ge> 2\<close>, and to 0 for \<open>N = 1\<close>, whose only thread writes no end.
\<close>

lemma identify_thread_zero:
  assumes "0 < length gs" and "0 \<le> gs ! 0" and "gs ! 0 < int (length S)"
  shows "kernIdentifyCellStartEnd_thread (length gs) gs 0 (S, E) = Some (S[nat (gs ! 0) := 0], E)"
  using assms by (simp add: kernIdentifyCellStartEnd_thread_def rd_def wr_def)

lemma identify_thread_next:
  assumes "0 < i" and "i < length gs"
    and "\<forall>g \<in> set gs. 0 \<le> g \<and> g < int M" and "length S = M" and "length E = M"
  shows "kernIdentifyCellStartEnd_thread (length gs) gs i (S, E) =
         (let E1 = (if Suc i = length gs then E[nat (gs ! i) := int i] else E)
          in if gs ! (i - 1) \<noteq> gs ! i
             then Some (S[nat (gs ! i) := int i], E1[nat (gs ! (i - 1)) := int i - 1])
             else Some (S, E1))"
proof -
  have r: "0 \<le> gs ! i" "gs ! i < int M" "0 \<le> gs ! (i - 1)" "gs ! (i - 1) < int M"
    using assms by (simp_all add: nth_mem)
  have last: "(int i = int (length gs) - 1) = (Suc i = length gs)"
    by auto
  have prev: "nat (int i - 1) = i - 1"
    using assms(1) by simp
  show ?thesis
    using assms r
    by (simp add: kernIdentifyCellStartEnd_thread_def rd_def wr_def last prev Let_def)
qed

lemma cellRange_cong:
  "S' ! c = S ! c \<Longrightarrow> E' ! c = E ! c \<Longrightarrow> cellRange S' E' c = cellRange S E c"
  by (simp add: cellRange_def)

lemma runInvariant_base:
  assumes "0 < length gs" and "\<forall>g \<in> set gs. 0 \<le> g \<and> g < int M"
    and "length S = M" and "length E = M" and "\<forall>c<M. S ! c = - 1 \<and> E ! c = - 1"
  shows "runInvariant gs M 1 (S[nat (gs ! 0) := 0], E)"
proof -
  let ?cur = "nat (gs ! 0)"
  have "gs ! 0 \<in> set gs"
    using assms(1) by simp
  then have "0 \<le> gs ! 0 \<and> gs ! 0 < int M"
    using assms(2) by blast
  then have cur: "?cur < M" "0 \<le> gs ! 0"
    by (simp_all add: nat_less_iff)
  have take1: "set (take 1 gs) = {gs ! 0}"
    using assms(1) by (cases gs) simp_all
  have "sum (cellRange (S[?cur := 0]) E) ({..<M} - {?cur}) = 0"
    using assms(3,5) by (intro sum.neutral) (auto simp: cellRange_def)
  then show ?thesis
    using assms cur take1
    by (auto simp: runInvariant_def Let_def nth_list_update)
qed

lemma sorted_new_label:
  assumes "sorted gs" and "0 < n" and "n < length gs" and "gs ! (n - 1) \<noteq> gs ! n"
  shows "gs ! n \<notin> set (take n gs)"
proof
  assume "gs ! n \<in> set (take n gs)"
  then obtain i where i: "i < n" "gs ! i = gs ! n"
    using assms(3) by (auto simp: in_set_conv_nth)
  have "gs ! i \<le> gs ! (n - 1)" "gs ! (n - 1) \<le> gs ! n"
    using assms(1-3) i(1) by (auto simp: sorted_iff_nth_mono)
  then show False
    using i(2) assms(4) by simp
qed

lemma runInvariant_step:
  assumes srt: "sorted gs" and rng: "\<forall>g \<in> set gs. 0 \<le> g \<and> g < int M"
    and n: "0 < n" "n < length gs"
    and inv: "runInvariant gs M n (S, E)"
  shows "\<exists>T. kernIdentifyCellStartEnd_thread (length gs) gs n (S, E) = Some T \<and>
             runInvariant gs M (Suc n) T"
proof -
  let ?N = "length gs"
  let ?o = "nat (gs ! (n - 1))"
  let ?g = "nat (gs ! n)"
  let ?E1 = "if Suc n = ?N then E[?g := int n] else E"
  from inv have len: "length S = M" "length E = M"
    and clean: "\<forall>c<M. int c \<notin> set (take n gs) \<longrightarrow> S ! c = - 1 \<and> E ! c = - 1"
    and s0: "0 \<le> S ! ?o" "S ! ?o < int n"
    and eo: "E ! ?o = - 1"
    and total: "sum (cellRange S E) ({..<M} - {?o}) = S ! ?o"
    using n by (simp_all add: runInvariant_def Let_def)
  have mem: "gs ! n \<in> set gs" "gs ! (n - 1) \<in> set gs"
    using n by simp_all
  then have r: "0 \<le> gs ! n" "gs ! n < int M" "0 \<le> gs ! (n - 1)" "gs ! (n - 1) < int M"
    using rng by blast+
  then have gM: "?g < M" and oM: "?o < M"
    by (simp_all add: nat_less_iff)
  have take_Suc: "set (take (Suc n) gs) = insert (gs ! n) (set (take n gs))"
    using n by (simp add: take_Suc_conv_app_nth)
  have thread: "kernIdentifyCellStartEnd_thread ?N gs n (S, E) =
         (if gs ! (n - 1) \<noteq> gs ! n
          then Some (S[?g := int n], ?E1[?o := int n - 1])
          else Some (S, ?E1))"
    using identify_thread_next [OF n rng len] by (simp add: Let_def)
  show ?thesis
  proof (cases "gs ! (n - 1) = gs ! n")
    case True
    then have og: "?o = ?g"
      by simp
    have sum': "sum (cellRange S ?E1) ({..<M} - {?g}) = sum (cellRange S E) ({..<M} - {?g})"
      by (rule sum.cong) (auto intro: cellRange_cong)
    have "runInvariant gs M (Suc n) (S, ?E1)"
      using len clean s0 eo total n gM sum' og take_Suc
      by (auto simp: runInvariant_def Let_def nth_list_update)
    then show ?thesis
      using thread True by simp
  next
    case False
    then have og: "?o \<noteq> ?g"
      using r by (simp add: nat_eq_iff)
    have "gs ! n \<notin> set (take n gs)"
      using sorted_new_label [OF srt n False] .
    then have fresh: "S ! ?g = - 1" "E ! ?g = - 1"
      using clean gM r by simp_all
    let ?S' = "S[?g := int n]"
    let ?E' = "?E1[?o := int n - 1]"
    have fin: "finite ({..<M} - {?g})" "finite ({..<M} - {?o})"
      by simp_all
    have "sum (cellRange ?S' ?E') ({..<M} - {?g}) =
          cellRange ?S' ?E' ?o + sum (cellRange ?S' ?E') ({..<M} - {?g} - {?o})"
      using oM og by (intro sum.remove) simp_all
    also have "cellRange ?S' ?E' ?o = int n - S ! ?o"
      using og oM len s0 by (simp add: cellRange_def)
    also have "sum (cellRange ?S' ?E') ({..<M} - {?g} - {?o}) =
               sum (cellRange S E) ({..<M} - {?g} - {?o})"
      by (rule sum.cong) (auto intro!: cellRange_cong)
    also have "sum (cellRange S E) ({..<M} - {?g} - {?o}) = S ! ?o"
    proof -
      have "sum (cellRange S E) ({..<M} - {?o}) =
            cellRange S E ?g + sum (cellRange S E) ({..<M} - {?o} - {?g})"
        using gM og by (intro sum.remove) simp_all
      moreover have "cellRange S E ?g = 0"
        using fresh by (simp add: cellRange_def)
      moreover have "{..<M} - {?o} - {?g} = {..<M} - {?g} - {?o}"
        by auto
      ultimately show ?thesis
        using total by simp
    qed
    finally have sum': "sum (cellRange ?S' ?E') ({..<M} - {?g}) = int n"
      by simp
    have cl: "\<forall>c<M. int c \<notin> set (take (Suc n) gs) \<longrightarrow> ?S' ! c = - 1 \<and> ?E' ! c = - 1"
    proof (intro allI impI)
      fix c
      assume c: "c < M" "int c \<notin> set (take (Suc n) gs)"
      then have "int c \<noteq> gs ! n" "int c \<notin> set (take n gs)"
        by (simp_all add: take_Suc)
      moreover have "gs ! (n - 1) \<in> set (take n gs)"
        using n by (auto simp: in_set_conv_nth intro!: exI [of _ "n - 1"])
      ultimately have "c \<noteq> ?g" "c \<noteq> ?o" "S ! c = - 1" "E ! c = - 1"
        using clean c(1) r by auto
      then show "?S' ! c = - 1 \<and> ?E' ! c = - 1"
        by simp
    qed
    have "runInvariant gs M (Suc n) (?S', ?E')"
      using len n gM oM og sum' cl fresh
      by (simp add: runInvariant_def Let_def)
    then show ?thesis
      using thread False by simp
  qed
qed

lemma identify_prefix:
  assumes srt: "sorted gs" and rng: "\<forall>g \<in> set gs. 0 \<le> g \<and> g < int M"
    and len: "length S = M" "length E = M" and clean: "\<forall>c<M. S ! c = - 1 \<and> E ! c = - 1"
    and n: "0 < n" "n \<le> length gs"
  shows "\<exists>T. foldM (kernIdentifyCellStartEnd_thread (length gs) gs) [0..<n] (S, E) = Some T \<and>
             runInvariant gs M n T"
  using n
proof (induction n rule: nat_induct_non_zero)
  case 1
  then have pos: "0 < length gs"
    by linarith
  then have "gs ! 0 \<in> set gs"
    by simp
  then have r: "0 \<le> gs ! 0" "gs ! 0 < int (length S)"
    using rng len by auto
  show ?case
    using identify_thread_zero [OF pos r, of E] runInvariant_base [OF pos rng len clean]
    by (simp add: foldM_single)
next
  case (Suc n)
  then obtain T where T: "foldM (kernIdentifyCellStartEnd_thread (length gs) gs) [0..<n] (S, E) = Some T"
    "runInvariant gs M n T"
    by auto
  obtain S1 E1 where T1: "T = (S1, E1)"
    by (cases T)
  have "n < length gs"
    using Suc.prems by simp
  from runInvariant_step [OF srt rng Suc.hyps(1) this T(2) [unfolded T1]]
  obtain T' where "kernIdentifyCellStartEnd_thread (length gs) gs n (S1, E1) = Some T'"
    "runInvariant gs M (Suc n) T'"
    by auto
  then show ?case
    using T(1) T1 by (auto simp: foldM_append foldM_single [abs_def])
qed

lemma rangeTotal_sum: "rangeTotal S E = sum (cellRange S E) {..<length S}"
proof -
  have "rangeTotal S E = sum (cellRange S E) (set [0..<length S])"
    unfolding rangeTotal_def by (rule sum_list_distinct_conv_sum_set) simp
  then show ?thesis
    by (simp add: atLeast0LessThan)
qed

lemma runInvariant_total:
  assumes "runInvariant gs M (length gs) (S, E)" and "0 < length gs"
    and "\<forall>g \<in> set gs. 0 \<le> g \<and> g < int M"
  shows "rangeTotal S E = (if length gs = 1 then 0 else int (length gs))"
proof -
  let ?N = "length gs"
  let ?cur = "nat (gs ! (?N - 1))"
  from assms(1) have len: "length S = M"
    and s0: "0 \<le> S ! ?cur"
    and e: "E ! ?cur = (if 2 \<le> ?N then int ?N - 1 else - 1)"
    and total: "sum (cellRange S E) ({..<M} - {?cur}) = S ! ?cur"
    by (simp_all add: runInvariant_def Let_def)
  have "gs ! (?N - 1) \<in> set gs"
    using assms(2) by simp
  then have cur: "?cur < M"
    using assms(3) by (auto simp: nat_less_iff)
  have "rangeTotal S E = cellRange S E ?cur + sum (cellRange S E) ({..<M} - {?cur})"
    unfolding rangeTotal_sum len using cur by (intro sum.remove) simp_all
  also have "\<dots> = E ! ?cur + 1"
    using s0 total by (simp add: cellRange_def)
  finally have t: "rangeTotal S E = E ! ?cur + 1" .
  have "?N = 1 \<or> 2 \<le> ?N"
    using assms(2) by linarith
  then show ?thesis
    using t e by auto
qed

lemma identify_range_total:
  assumes "sorted gs" and "\<forall>g \<in> set gs. 0 \<le> g \<and> g < int M" and "0 < length gs"
    and "length S = M" and "length E = M" and "\<forall>c<M. S ! c = - 1 \<and> E ! c = - 1"
  shows "\<exists>S' E'. kernIdentifyCellStartEnd (length gs) gs (S, E) = Some (S', E') \<and>
           length S' = M \<and> length E' = M \<and>
           rangeTotal S' E' = (if length gs = 1 then 0 else int (length gs))"
proof -
  obtain T where T: "foldM (kernIdentifyCellStartEnd_thread (length gs) gs) [0..<length gs] (S, E)
                     = Some T"
    "runInvariant gs M (length gs) T"
    using identify_prefix [OF assms(1,2,4,5,6,3)] by auto
  obtain S' E' where T': "T = (S', E')"
    by (cases T)
  have "length S' = M" "length E' = M"
    using T(2) by (simp_all add: T' runInvariant_def Let_def)
  then show ?thesis
    using T(1) runInvariant_total [OF T(2) [unfolded T'] assms(3,2)]
    by (simp add: kernIdentifyCellStartEnd_threads T')
qed

lemma set_sorted_keys:
  assumes "length ks = length vs"
  shows "set (map fst (sort_key fst (zip ks vs))) = set ks"
proof -
  have "set (map fst (sort_key fst (zip ks vs))) = fst ` set (sort_key fst (zip ks vs))"
    by (rule set_map)
  also have "\<dots> = fst ` set (zip ks vs)"
    by (simp only: set_sort)
  also have "\<dots> = set (map fst (zip ks vs))"
    by (rule set_map [symmetric])
  also have "\<dots> = set ks"
    using assms by (simp only: map_fst_zip)
  finally show ?thesis .
qed

lemma stageIndices_labels:
  assumes "length (dev_particleArrayIndices s) = numObjects s"
    and "length (dev_particleGridIndices s) = numObjects s"
  shows "dev_particleGridIndices (stageIndices s) =
         map fst (sort_key fst (zip (map (\<lambda>i. cellIndex gridSideCount gridMinimum
                     gridInverseCellWidth (dev_pos s ! i)) [0..<numObjects s])
                   (map int [0..<numObjects s])))"
    and "length (dev_particleGridIndices (stageIndices s)) = numObjects s"
    and "sorted (dev_particleGridIndices (stageIndices s))"
    and "set (dev_particleGridIndices (stageIndices s)) =
         (\<lambda>i. cellIndex gridSideCount gridMinimum gridInverseCellWidth (dev_pos s ! i)) `
           {..<numObjects s}"
proof -
  let ?cells = "map (\<lambda>i. cellIndex gridSideCount gridMinimum gridInverseCellWidth (dev_pos s ! i))
                  [0..<numObjects s]"
  let ?slots = "map int [0..<numObjects s]"
  show eq: "dev_particleGridIndices (stageIndices s) = map fst (sort_key fst (zip ?cells ?slots))"
    using assms
    by (simp add: stageIndices_def Let_def kernComputeIndices_eq sort_by_key_def)
  show "length (dev_particleGridIndices (stageIndices s)) = numObjects s"
    by (simp add: eq)
  show "sorted (dev_particleGridIndices (stageIndices s))"
    unfolding eq by (rule sorted_sort_key)
  have "set (map fst (sort_key fst (zip ?cells ?slots))) = set ?cells"
    by (rule set_sorted_keys) simp
  also have "set ?cells =
      (\<lambda>i. cellIndex gridSideCount gridMinimum gridInverseCellWidth (dev_pos s ! i)) ` {..<numObjects s}"
    by (simp add: atLeast0LessThan)
  finally show "set (dev_particleGridIndices (stageIndices s)) =
      (\<lambda>i. cellIndex gridSideCount gridMinimum gridInverseCellWidth (dev_pos s ! i)) ` {..<numObjects s}"
    unfolding eq .
qed

lemma tables_total_clean:
  assumes alloc: "allocated s" and scene: "list_all inScene (dev_pos s)"
    and some: "0 < numObjects s" and fits: "int (numObjects s) \<le> gridCellCount"
    and fresh: "\<forall>c. numObjects s \<le> c \<and> int c < gridCellCount \<longrightarrow>
                  dev_gridCellStartIndices s ! c = - 1 \<and> dev_gridCellEndIndices s ! c = - 1"
  shows "\<exists>s'. stageReset (stageIndices s) \<bind> stageCellStartEnd = Some s' \<and>
              rangeTotal (dev_gridCellStartIndices s') (dev_gridCellEndIndices s') =
                (if numObjects s = 1 then 0 else int (numObjects s))"
proof -
  let ?N = "numObjects s"
  let ?s1 = "stageIndices s"
  let ?gs = "dev_particleGridIndices ?s1"
  let ?M = "nat gridCellCount"
  have lens: "length (dev_particleArrayIndices s) = ?N" "length (dev_particleGridIndices s) = ?N"
    "length (dev_pos s) = ?N"
    "length (dev_gridCellStartIndices s) = ?M" "length (dev_gridCellEndIndices s) = ?M"
    using alloc by (auto simp: allocated_def)
  note lab = stageIndices_labels [OF lens(1,2)]
  have NM: "?N \<le> ?M"
    using fits by simp
  let ?S = "replicate ?N (- 1) @ drop ?N (dev_gridCellStartIndices s)"
  let ?E = "replicate ?N (- 1) @ drop ?N (dev_gridCellEndIndices s)"
  have reset: "stageReset ?s1 =
      Some (?s1\<lparr>dev_gridCellStartIndices := ?S, dev_gridCellEndIndices := ?E\<rparr>)"
    using NM lens by (simp add: stageReset_def kernResetIntBuffer_eq stageIndices_frame)
  have lenSE: "length ?S = ?M" "length ?E = ?M"
    using NM lens by simp_all
  have clean: "\<forall>c<?M. ?S ! c = - 1 \<and> ?E ! c = - 1"
  proof (intro allI impI)
    fix c
    assume c: "c < ?M"
    show "?S ! c = - 1 \<and> ?E ! c = - 1"
    proof (cases "c < ?N")
      case True
      then show ?thesis by (simp add: nth_append)
    next
      case False
      then have "dev_gridCellStartIndices s ! c = - 1 \<and> dev_gridCellEndIndices s ! c = - 1"
        using fresh c by simp
      then show ?thesis
        using False c lens NM by (simp add: nth_append)
    qed
  qed
  have rng: "\<forall>g \<in> set ?gs. 0 \<le> g \<and> g < int ?M"
  proof
    fix g
    assume "g \<in> set ?gs"
    then obtain i where i: "i < ?N"
      "g = cellIndex gridSideCount gridMinimum gridInverseCellWidth (dev_pos s ! i)"
      unfolding lab(4) by auto
    have "inScene (dev_pos s ! i)"
      using scene i(1) lens(3) by (simp add: list_all_length)
    then show "0 \<le> g \<and> g < int ?M"
      using cellIndex_in_table [of "dev_pos s ! i"] i(2) by (simp add: grid_values)
  qed
  have pos: "0 < length ?gs"
    using some lab(2) by simp
  obtain S' E' where built: "kernIdentifyCellStartEnd (length ?gs) ?gs (?S, ?E) = Some (S', E')"
    and total: "rangeTotal S' E' = (if length ?gs = 1 then 0 else int (length ?gs))"
    using identify_range_total [OF lab(3) rng pos lenSE clean] by auto
  show ?thesis
    using built total lab(2)
    by (simp add: reset stageCellStartEnd_def stageIndices_frame)
qed

section \<open>Steps whose reads leave the buffers\<close>

text \<open>
  With \<open>rd\<close> for the three readers the kernels and steps with readers are the ones
  defined first. With \<open>rdAny\<close> every read returns, so with the buffers allocated, the
  positions inside the scene and no more boids than cells, every launch of a grid step
  completes: the labels lie in the tables, the slots after the sort are the slots
  \<open>0, \<dots>, numObjects - 1\<close> rearranged, and the kernels write their own slots. A step
  that completes with \<open>rd\<close> completes with \<open>rdAny\<close> in the same state.
\<close>

lemma visitBy_rd: "visitBy rd rd pos vel1 currentPos b a = visit pos vel1 currentPos b a"
  unfolding visitBy_def visit_def by (rule refl)

lemma scatteredCellBy_rd:
  "scatteredCellBy rd rd rd pai pos vel1 linearIndex currentPos start end a =
   scatteredCell pai pos vel1 linearIndex currentPos start end a"
  unfolding scatteredCellBy_def scatteredCell_def visitBy_rd by (rule refl)

lemma coherentCellBy_rd:
  "coherentCellBy rd rd pos vel1 linearIndex currentPos start end a =
   coherentCell pos vel1 linearIndex currentPos start end a"
  unfolding coherentCellBy_def coherentCell_def visitBy_rd by (rule refl)

lemma kernUpdateVelNeighborSearchScatteredBy_rd:
  "kernUpdateVelNeighborSearchScatteredBy rd rd rd N res gmin icw cw starts ends pai pos vel1 mem =
   kernUpdateVelNeighborSearchScattered N res gmin icw cw starts ends pai pos vel1 mem"
proof -
  have "kernUpdateVelNeighborSearchScatteredBy_thread rd rd rd N res gmin icw cw starts ends pai
          pos vel1 i m =
        kernUpdateVelNeighborSearchScattered_thread N res gmin icw cw starts ends pai pos vel1 i m"
    for i m
    unfolding kernUpdateVelNeighborSearchScatteredBy_thread_def
      kernUpdateVelNeighborSearchScattered_thread_def scatteredCellBy_rd by (rule refl)
  then have "kernUpdateVelNeighborSearchScatteredBy_thread rd rd rd N res gmin icw cw starts ends
          pai pos vel1 =
        kernUpdateVelNeighborSearchScattered_thread N res gmin icw cw starts ends pai pos vel1"
    by (intro ext)
  then show ?thesis
    by (simp add: kernUpdateVelNeighborSearchScatteredBy_def
        kernUpdateVelNeighborSearchScattered_def)
qed

lemma kernUpdateVelNeighborSearchCoherentBy_rd:
  "kernUpdateVelNeighborSearchCoherentBy rd rd rd N res gmin icw cw starts ends pos vel1 mem =
   kernUpdateVelNeighborSearchCoherent N res gmin icw cw starts ends pos vel1 mem"
proof -
  have "kernUpdateVelNeighborSearchCoherentBy_thread rd rd rd N res gmin icw cw starts ends
          pos vel1 i m =
        kernUpdateVelNeighborSearchCoherent_thread N res gmin icw cw starts ends pos vel1 i m"
    for i m
    unfolding kernUpdateVelNeighborSearchCoherentBy_thread_def
      kernUpdateVelNeighborSearchCoherent_thread_def coherentCellBy_rd by (rule refl)
  then have "kernUpdateVelNeighborSearchCoherentBy_thread rd rd rd N res gmin icw cw starts ends
          pos vel1 =
        kernUpdateVelNeighborSearchCoherent_thread N res gmin icw cw starts ends pos vel1"
    by (intro ext)
  then show ?thesis
    by (simp add: kernUpdateVelNeighborSearchCoherentBy_def
        kernUpdateVelNeighborSearchCoherent_def)
qed

lemma stepSimulationScatteredGridBy_rd:
  "stepSimulationScatteredGridBy rd rd rd dt s = stepSimulationScatteredGrid dt s"
  unfolding stepSimulationScatteredGridBy_def stepSimulationScatteredGrid_def
      stageSearchScatteredBy_def stageSearchScattered_def
      kernUpdateVelNeighborSearchScatteredBy_rd by (rule refl)

lemma stepSimulationCoherentGridBy_rd:
  "stepSimulationCoherentGridBy rd rd rd dt s = stepSimulationCoherentGrid dt s"
  unfolding stepSimulationCoherentGridBy_def stepSimulationCoherentGrid_def
      stageSearchCoherentBy_def stageSearchCoherent_def
      kernUpdateVelNeighborSearchCoherentBy_rd by (rule refl)


lemma rdAny_inside:
  "0 \<le> i \<Longrightarrow> i < int (length xs) \<Longrightarrow> rdAny beyond xs i = Some (xs ! nat i)"
  by (simp add: rdAny_def)


lemma rdAny_extends: "rd xs i = Some v \<Longrightarrow> rdAny beyond xs i = Some v"
  by (simp add: rd_def rdAny_def split: if_splits)
















lemma foldM_extends:
  assumes "foldM f is a = Some b"
    and "\<And>i x y. i \<in> set is \<Longrightarrow> f i x = Some y \<Longrightarrow> g i x = Some y"
  shows "foldM g is a = Some b"
  using assms
proof (induction "is" arbitrary: a)
  case Nil
  then show ?case by (simp add: foldM_Nil)
next
  case (Cons i "is")
  from Cons.prems(1) obtain x where x: "f i a = Some x" "foldM f is x = Some b"
    by (auto simp: foldM_Cons bind_eq_Some_conv)
  have "g i a = Some x"
    using x(1) Cons.prems(2) by simp
  moreover have "foldM g is x = Some b"
    by (rule Cons.IH [OF x(2)]) (rule Cons.prems(2), simp_all)
  ultimately show ?case
    by (simp add: foldM_Cons)
qed

lemma visitBy_extends:
  assumes "visit pos vel1 currentPos b a = Some r"
  shows "visitBy (rdAny gP) (rdAny gV) pos vel1 currentPos b a = Some r"
proof -
  from assms obtain pb vb where
    "rd pos b = Some pb"
    "(if glm_distance currentPos pb < rule3Distance then rd vel1 b else Some 0) = Some vb"
    "r = ruleBody currentPos pb vb a"
    by (auto simp: visit_def bind_eq_Some_conv)
  then show ?thesis
    by (auto simp: visitBy_def rdAny_extends split: if_splits)
qed

lemma scatteredCellBy_extends:
  assumes "scatteredCell pai pos vel1 linearIndex currentPos start end a = Some r"
  shows "scatteredCellBy (rdAny gI) (rdAny gP) (rdAny gV) pai pos vel1 linearIndex currentPos
           start end a = Some r"
  using assms unfolding scatteredCell_def scatteredCellBy_def
proof (rule foldM_extends)
  fix j :: int and x y :: rules
  assume "rd pai j \<bind> (\<lambda>b. if linearIndex \<noteq> b then visit pos vel1 currentPos b x else Some x)
          = Some y"
  then obtain b where b: "rd pai j = Some b"
    "(if linearIndex \<noteq> b then visit pos vel1 currentPos b x else Some x) = Some y"
    by (auto simp: bind_eq_Some_conv)
  then show "rdAny gI pai j \<bind>
        (\<lambda>b. if linearIndex \<noteq> b then visitBy (rdAny gP) (rdAny gV) pos vel1 currentPos b x
              else Some x) = Some y"
    by (auto simp: rdAny_extends visitBy_extends split: if_splits)
qed


lemma scattered_thread_extends:
  assumes "kernUpdateVelNeighborSearchScattered_thread N res gmin icw cw starts ends pai pos vel1
             i m = Some m'"
  shows "kernUpdateVelNeighborSearchScatteredBy_thread (rdAny gI) (rdAny gP) (rdAny gV) N res gmin
           icw cw starts ends pai pos vel1 i m = Some m'"
proof (cases "i \<ge> N")
  case True
  then show ?thesis
    using assms
    by (simp add: kernUpdateVelNeighborSearchScattered_thread_def
        kernUpdateVelNeighborSearchScatteredBy_thread_def)
next
  case False
  let ?cell = "\<lambda>li cp nb a. if nb < 0 then Some a
                      else do {
                        start \<leftarrow> rd starts nb;
                        end \<leftarrow> rd ends nb;
                        scatteredCell pai pos vel1 li cp start end a
                      }"
  let ?cellBy = "\<lambda>li cp nb a. if nb < 0 then Some a
                      else do {
                        start \<leftarrow> rdAny gI starts nb;
                        end \<leftarrow> rdAny gI ends nb;
                        scatteredCellBy (rdAny gI) (rdAny gP) (rdAny gV) pai pos vel1 li cp
                          start end a
                      }"
  from assms False obtain li cp a own vel2 where st:
    "rd pai (int i) = Some li" "rd pos li = Some cp"
    "foldM (?cell li cp) (calculateBoidNeighborCells (vscale (cp - gmin) icw) res) rules0 = Some a"
    "rd vel1 li = Some own"
    "wr (fst m) li (fst (limitSpeed (ruleResult cp a + own))) = Some vel2"
    "m' = (vel2, report (snd (limitSpeed (ruleResult cp a + own))) (snd m))"
    by (auto simp: kernUpdateVelNeighborSearchScattered_thread_def bind_eq_Some_conv Let_def)
  have "foldM (?cellBy li cp) (calculateBoidNeighborCells (vscale (cp - gmin) icw) res) rules0
        = Some a"
    using st(3)
  proof (rule foldM_extends)
    fix nb :: int and x y :: rules
    assume "?cell li cp nb x = Some y"
    then show "?cellBy li cp nb x = Some y"
      by (auto simp: bind_eq_Some_conv rdAny_extends scatteredCellBy_extends split: if_splits)
  qed
  then show ?thesis
    using False st
    by (simp add: kernUpdateVelNeighborSearchScatteredBy_thread_def rdAny_extends Let_def)
qed


lemma launchM_extends:
  assumes "launchM blocks f mem = Some m'" and "\<And>i x y. f i x = Some y \<Longrightarrow> g i x = Some y"
  shows "launchM blocks g mem = Some m'"
proof -
  have "foldM f [0..<blocks * blockSize] mem = Some m'"
    using assms(1) by (simp add: launchM_def launch_def foldM_def)
  then have "foldM g [0..<blocks * blockSize] mem = Some m'"
    by (rule foldM_extends) (rule assms(2))
  then show ?thesis
    by (simp add: launchM_def launch_def foldM_def)
qed

lemma scattered_step_extends:
  assumes "stepSimulationScatteredGrid dt s = Some s'"
  shows "stepSimulationScatteredGridBy (rdAny gI) (rdAny gP) (rdAny gV) dt s = Some s'"
proof -
  from assms obtain s2 s3 s4 where st:
    "stageReset (stageIndices s) = Some s2" "stageCellStartEnd s2 = Some s3"
    "stageSearchScattered s3 = Some s4"
    and s': "s' = s4\<lparr>dev_pos := kernUpdatePos (numObjects s4) dt (dev_pos s4) (dev_vel2 s4),
                     dev_vel1 := dev_vel2 s4, dev_vel2 := dev_vel1 s4\<rparr>"
    by (auto simp: stepSimulationScatteredGrid_def bind_eq_Some_conv Let_def)
  from st(3) obtain m where m:
    "kernUpdateVelNeighborSearchScattered (numObjects s3) gridSideCount gridMinimum
       gridInverseCellWidth gridCellWidth (dev_gridCellStartIndices s3)
       (dev_gridCellEndIndices s3) (dev_particleArrayIndices s3) (dev_pos s3)
       (dev_vel1 s3) (dev_vel2 s3, console s3) = Some m"
    "s4 = s3\<lparr>dev_vel2 := fst m, console := snd m\<rparr>"
    by (auto simp: stageSearchScattered_def bind_eq_Some_conv)
  have "kernUpdateVelNeighborSearchScatteredBy (rdAny gI) (rdAny gP) (rdAny gV) (numObjects s3)
       gridSideCount gridMinimum gridInverseCellWidth gridCellWidth (dev_gridCellStartIndices s3)
       (dev_gridCellEndIndices s3) (dev_particleArrayIndices s3) (dev_pos s3)
       (dev_vel1 s3) (dev_vel2 s3, console s3) = Some m"
    using m(1)
    unfolding kernUpdateVelNeighborSearchScattered_def kernUpdateVelNeighborSearchScatteredBy_def
    by (rule launchM_extends) (rule scattered_thread_extends)
  then have "stageSearchScatteredBy (rdAny gI) (rdAny gP) (rdAny gV) s3 = Some s4"
    by (simp add: stageSearchScatteredBy_def m(2))
  then show ?thesis
    by (simp add: stepSimulationScatteredGridBy_def st s' Let_def)
qed


section \<open>The steps on the concrete states\<close>

text \<open>
  The stages evaluated one after the other on \<open>pairState\<close>, \<open>crossState\<close> and
  \<open>loneState\<close>.
\<close>

lemma stale_length [simp]: "length staleStarts = 10648" "length staleEnds = 10648"
  by (simp_all add: staleStarts_def staleEnds_def)

lemma stale_nth:
  "staleStarts ! 10636 = 0" "staleEnds ! 10636 = 1"
  "staleStarts ! 10637 = - 1" "staleEnds ! 10637 = - 1"
  by (simp_all add: staleStarts_def staleEnds_def)

lemma pairState_fields [simp]:
  "numObjects pairState = 2" "dev_pos pairState = [Vec3 0 100 100, Vec3 1 100 100]"
  "dev_vel1 pairState = [0, 0]" "dev_vel2 pairState = [0, 0]"
  "dev_gridCellStartIndices pairState = staleStarts"
  "dev_gridCellEndIndices pairState = staleEnds" "console pairState = []"
  "dev_pos_co pairState = [0, 0]" "dev_vel_co pairState = [0, 0]"
  by (simp_all add: pairState_def)



lemma pair_cells:
  "cellIndex 22 (Vec3 (- 110) (- 110) (- 110)) (1 / 10) (Vec3 0 100 100) = 10637"
  "cellIndex 22 (Vec3 (- 110) (- 110) (- 110)) (1 / 10) (Vec3 1 100 100) = 10637"
  by (simp_all add: cellIndex_def to_ivec3_def vscale_def plus_vec3_def uminus_vec3_def
      trunc_def gridIndex3Dto1D_def Let_def)

lemma pair_neighbors:
  "calculateBoidNeighborCells (Vec3 11 21 21) 22
   = [10637, 10636, - 1, - 1, - 1, - 1, - 1, - 1]"
  "calculateBoidNeighborCells (Vec3 (111 / 10) 21 21) 22
   = [10637, 10636, - 1, - 1, - 1, - 1, - 1, - 1]"
  by (simp_all add: calculateBoidNeighborCells_def vscale_def minus_vec3_def to_ivec3_def
      to_vec3_def trunc_def ivec3_add_def gridIndex3Dto1D_def Let_def zero_vec3_def)

lemma pair_indices:
  "stageIndices pairState =
   pairState\<lparr>dev_particleArrayIndices := [0, 1], dev_particleGridIndices := [10637, 10637]\<rparr>"
  by (simp add: stageIndices_def pairState_def kernComputeIndices_eq grid_values upt_2
      pair_cells sort_by_key_def Let_def)

lemma pair_reset:
  "stageReset (stageIndices pairState) =
   Some (pairState\<lparr>dev_particleArrayIndices := [0, 1], dev_particleGridIndices := [10637, 10637],
           dev_gridCellStartIndices := staleStarts[0 := - 1, 1 := - 1],
           dev_gridCellEndIndices := staleEnds[0 := - 1, 1 := - 1]\<rparr>)"
  by (simp add: pair_indices stageReset_def kernResetIntBuffer_updates upt_2)

lemma pair_tables:
  "stageReset (stageIndices pairState) \<bind> stageCellStartEnd =
   Some (pairState\<lparr>dev_particleArrayIndices := [0, 1], dev_particleGridIndices := [10637, 10637],
           dev_gridCellStartIndices := staleStarts[0 := - 1, 1 := - 1, 10637 := 0],
           dev_gridCellEndIndices := staleEnds[0 := - 1, 1 := - 1, 10637 := 1]\<rparr>)"
  by (simp add: pair_reset stageCellStartEnd_def kernIdentifyCellStartEnd_threads
      upt_2 foldM_Cons foldM_Nil kernIdentifyCellStartEnd_thread_def rd_def wr_def)

lemma pair_range_total:
  "map_option (\<lambda>s. rangeTotal (dev_gridCellStartIndices s) (dev_gridCellEndIndices s))
     (stageReset (stageIndices pairState) \<bind> stageCellStartEnd) = Some 4"
proof -
  let ?starts = "staleStarts[0 := - 1, 1 := - 1, 10637 := 0]"
  let ?ends = "staleEnds[0 := - 1, 1 := - 1, 10637 := 1]"
  have "rangeTotal ?starts ?ends = sum_list (map (cellRange ?starts ?ends) [10636, 10637])"
    by (rule rangeTotal_sparse) (simp_all add: nth_list_update staleStarts_def)
  also have "\<dots> = 4"
    by (simp add: cellRange_def stale_nth)
  finally show ?thesis
    unfolding pair_tables by simp
qed

lemma pair_scattered_velocities:
  assumes "length starts = 10648" and "length ends = 10648"
    and "starts ! 10637 = 0" and "ends ! 10637 = 1"
    and "starts ! 10636 = 0" and "ends ! 10636 = 1"
  shows "kernUpdateVelNeighborSearchScattered 2 22 (Vec3 (- 110) (- 110) (- 110)) (1 / 10) 10
           starts ends [0, 1] [Vec3 0 100 100, Vec3 1 100 100] [0, 0] ([0, 0], out) =
         Some ([Vec3 (- 19 / 100) 0 0, Vec3 (19 / 100) 0 0], out)"
  using assms
  by (simp add: kernUpdateVelNeighborSearchScattered_threads upt_2 foldM_Cons foldM_Nil
      kernUpdateVelNeighborSearchScattered_thread_def rd_def wr_def pair_neighbors Let_def
      scatteredCell_def visit_def ruleBody_def glm_distance_less_iff
      rule1Distance_def rule2Distance_def rule3Distance_def glm_dot_def minus_vec3_def
      plus_vec3_def zero_vec3_def rules0_def ruleResult_def vdiv_def vscale_def
      rule1Scale_def rule2Scale_def rule3Scale_def limitSpeed_def glm_length_def
      maxSpeed_def report_def upto_0_1)

lemma pair_search:
  "stageReset (stageIndices pairState) \<bind> stageCellStartEnd \<bind> stageSearchScattered =
   Some (pairState\<lparr>dev_particleArrayIndices := [0, 1], dev_particleGridIndices := [10637, 10637],
        dev_gridCellStartIndices := staleStarts[0 := - 1, 1 := - 1, 10637 := 0],
        dev_gridCellEndIndices := staleEnds[0 := - 1, 1 := - 1, 10637 := 1],
        dev_vel2 := [Vec3 (- 19 / 100) 0 0, Vec3 (19 / 100) 0 0], console := []\<rparr>)"
  unfolding pair_tables
  by (simp add: stageSearchScattered_def grid_values pair_scattered_velocities stale_nth)

lemma pair_scattered_step:
  "stepSimulationScatteredGrid dt pairState =
   Some (pairState\<lparr>dev_particleArrayIndices := [0, 1], dev_particleGridIndices := [10637, 10637],
        dev_gridCellStartIndices := staleStarts[0 := - 1, 1 := - 1, 10637 := 0],
        dev_gridCellEndIndices := staleEnds[0 := - 1, 1 := - 1, 10637 := 1],
        dev_vel2 := [0, 0], console := [],
        dev_pos := kernUpdatePos 2 dt [Vec3 0 100 100, Vec3 1 100 100]
                     [Vec3 (- 19 / 100) 0 0, Vec3 (19 / 100) 0 0],
        dev_vel1 := [Vec3 (- 19 / 100) 0 0, Vec3 (19 / 100) 0 0]\<rparr>)"
  unfolding scattered_step_stages pair_search
  by simp

lemma pair_brute_force:
  "kernUpdateVelocityBruteForce 2 [Vec3 0 100 100, Vec3 1 100 100] [0, 0] ([0, 0], out) =
   ([Vec3 (- 9 / 100) 0 0, Vec3 (9 / 100) 0 0], out)"
  by (simp add: kernUpdateVelocityBruteForce_fold upt_2 computeVelocityChange_def
      ruleBody_def Let_def glm_distance_less_iff
      rule1Distance_def rule2Distance_def rule3Distance_def glm_dot_def minus_vec3_def
      plus_vec3_def zero_vec3_def rules0_def ruleResult_def vdiv_def vscale_def
      rule1Scale_def rule2Scale_def rule3Scale_def limitSpeed_def glm_length_def
      maxSpeed_def report_def)

lemma pair_naive_step:
  "stepSimulationNaive dt pairState =
   pairState\<lparr>dev_pos := kernUpdatePos 2 dt [Vec3 0 100 100, Vec3 1 100 100] [0, 0],
     dev_vel1 := [Vec3 (- 9 / 100) 0 0, Vec3 (9 / 100) 0 0], dev_vel2 := [0, 0], console := []\<rparr>"
  by (simp add: stepSimulationNaive_def Let_def pair_brute_force)

lemma pair_coherent_reset:
  "stageReset pairState =
   Some (pairState\<lparr>dev_gridCellStartIndices := staleStarts[0 := - 1, 1 := - 1],
           dev_gridCellEndIndices := staleEnds[0 := - 1, 1 := - 1]\<rparr>)"
  by (simp add: stageReset_def kernResetIntBuffer_updates upt_2)

lemma pair_coherent_tables:
  "stageReset pairState \<bind> (\<lambda>s1. stageCellStartEnd (stageIndices s1)) =
   Some (pairState\<lparr>
       dev_gridCellStartIndices := staleStarts[0 := - 1, 1 := - 1, 10637 := 0],
       dev_gridCellEndIndices := staleEnds[0 := - 1, 1 := - 1, 10637 := 1],
       dev_particleArrayIndices := [0, 1], dev_particleGridIndices := [10637, 10637]\<rparr>)"
  unfolding pair_coherent_reset
  by (simp add: stageIndices_eval pairState_def upt_2 pair_cells sort_by_key_def
      stageCellStartEnd_def kernIdentifyCellStartEnd_threads
      foldM_Cons foldM_Nil kernIdentifyCellStartEnd_thread_def rd_def wr_def)

lemma pair_coherent_search:
  "stageReset pairState \<bind> (\<lambda>s1. stageCellStartEnd (stageIndices s1)) \<bind> stageCoherency \<bind>
   stageSearchCoherent =
   Some (pairState\<lparr>
       dev_gridCellStartIndices := staleStarts[0 := - 1, 1 := - 1, 10637 := 0],
       dev_gridCellEndIndices := staleEnds[0 := - 1, 1 := - 1, 10637 := 1],
       dev_particleArrayIndices := [0, 1], dev_particleGridIndices := [10637, 10637],
       dev_pos_co := [Vec3 0 100 100, Vec3 1 100 100], dev_vel_co := [0, 0],
       dev_vel1 := [0, Vec3 (19 / 100) 0 0], console := []\<rparr>)"
  unfolding pair_coherent_tables
  by (simp add: stageCoherency_def kernPropogateCoherency_threads upt_2 foldM_Cons
      foldM_Nil kernPropogateCoherency_thread_def rd_def wr_def
      stageSearchCoherent_def grid_values
      kernUpdateVelNeighborSearchCoherent_threads
      kernUpdateVelNeighborSearchCoherent_thread_def pair_neighbors Let_def
      coherentCell_def stale_nth visit_def ruleBody_def glm_distance_less_iff
      rule1Distance_def rule2Distance_def rule3Distance_def glm_dot_def minus_vec3_def
      plus_vec3_def zero_vec3_def rules0_def ruleResult_def vdiv_def vscale_def
      rule1Scale_def rule2Scale_def rule3Scale_def limitSpeed_def glm_length_def
      maxSpeed_def report_def)

lemma pair_coherent_step:
  "map_option (\<lambda>s. (dev_pos s, dev_vel1 s)) (stepSimulationCoherentGrid 0 pairState) =
   Some ([Vec3 0 100 100, Vec3 1 100 100], [0, Vec3 (19 / 100) 0 0])"
  unfolding coherent_step_stages pair_coherent_search
  by (simp add: kernUpdatePos_2 vscale_def plus_vec3_def zero_vec3_def wrapPos_def scene_scale_def)

lemma crossState_fields [simp]:
  "numObjects crossState = 2" "dev_pos crossState = [Vec3 50 0 0, Vec3 0 0 0]"
  "dev_vel1 crossState = [0, 0]" "dev_vel2 crossState = [0, 0]"
  "dev_particleArrayIndices crossState = [0, 0]" "dev_particleGridIndices crossState = [0, 0]"
  "dev_gridCellStartIndices crossState = replicate 10648 (- 1)"
  "dev_gridCellEndIndices crossState = replicate 10648 (- 1)" "console crossState = []"
  "dev_pos_co crossState = [0, 0]" "dev_vel_co crossState = [0, 0]"
  by (simp_all add: crossState_def)


lemma cross_cells:
  "cellIndex 22 (Vec3 (- 110) (- 110) (- 110)) (1 / 10) (Vec3 50 0 0) = 5582"
  "cellIndex 22 (Vec3 (- 110) (- 110) (- 110)) (1 / 10) (Vec3 0 0 0) = 5577"
  by (simp_all add: cellIndex_def to_ivec3_def vscale_def plus_vec3_def uminus_vec3_def
      trunc_def gridIndex3Dto1D_def Let_def)

lemma cross_neighbors:
  "calculateBoidNeighborCells (Vec3 11 11 11) 22
   = [5577, 5576, 5599, 6061, 5598, 6083, 6060, 6082]"
  "calculateBoidNeighborCells (Vec3 16 11 11) 22
   = [5582, 5581, 5604, 6066, 5603, 6088, 6065, 6087]"
  by (simp_all add: calculateBoidNeighborCells_def vscale_def minus_vec3_def to_ivec3_def
      to_vec3_def trunc_def ivec3_add_def gridIndex3Dto1D_def Let_def zero_vec3_def)






lemma cross_scattered_tables:
  "stageReset (stageIndices crossState) \<bind> stageCellStartEnd =
   Some (crossState\<lparr>dev_particleArrayIndices := [1, 0], dev_particleGridIndices := [5577, 5582],
       dev_gridCellStartIndices := (replicate 10648 (- 1))[0 := - 1, 1 := - 1, 5577 := 0, 5582 := 1],
       dev_gridCellEndIndices := (replicate 10648 (- 1))[0 := - 1, 1 := - 1, 5582 := 1, 5577 := 0]\<rparr>)"
  by (simp add: stageIndices_eval upt_2 cross_cells sort_by_key_def stageReset_def
      kernResetIntBuffer_updates stageCellStartEnd_def kernIdentifyCellStartEnd_threads
      foldM_Cons foldM_Nil kernIdentifyCellStartEnd_thread_def rd_def wr_def)

lemma cross_scattered_faults: "stepSimulationScatteredGrid dt crossState = None"
  unfolding scattered_step_stages cross_scattered_tables
  by (simp add: stageSearchScattered_def grid_values
      kernUpdateVelNeighborSearchScattered_threads upt_2 foldM_Cons foldM_Nil
      kernUpdateVelNeighborSearchScattered_thread_def rd_def wr_def cross_neighbors Let_def
      scatteredCell_def minus_vec3_def vscale_def upto_m1)

lemma loneState_fields [simp]:
  "numObjects loneState = 1" "dev_pos loneState = [Vec3 0 0 0]"
  "dev_particleArrayIndices loneState = [0]" "dev_particleGridIndices loneState = [0]"
  "dev_gridCellStartIndices loneState = replicate 10648 (- 1)"
  "dev_gridCellEndIndices loneState = replicate 10648 (- 1)"
  by (simp_all add: loneState_def)

lemma lone_tables:
  "stageReset (stageIndices loneState) \<bind> stageCellStartEnd =
   Some (loneState\<lparr>dev_particleArrayIndices := [0], dev_particleGridIndices := [5577],
           dev_gridCellStartIndices := (replicate 10648 (- 1))[0 := - 1, 5577 := 0],
           dev_gridCellEndIndices := (replicate 10648 (- 1))[0 := - 1]\<rparr>)"
  by (simp add: stageIndices_eval cross_cells sort_by_key_def stageReset_def
      kernResetIntBuffer_updates stageCellStartEnd_def kernIdentifyCellStartEnd_threads
      foldM_Cons foldM_Nil kernIdentifyCellStartEnd_thread_def rd_def wr_def)

lemma lone_range_total_eval:
  "rangeTotal ((replicate 10648 (- 1))[0 := - 1, 5577 := 0]) ((replicate 10648 (- 1))[0 := - 1]) = 0"
proof -
  have "rangeTotal ((replicate 10648 (- 1))[0 := - 1, 5577 := 0]) ((replicate 10648 (- 1))[0 := - 1]) =
        sum_list (map (cellRange ((replicate 10648 (- 1))[0 := - 1, 5577 := 0])
                         ((replicate 10648 (- 1))[0 := - 1])) [5577])"
    by (rule rangeTotal_sparse) (simp_all add: nth_list_update)
  also have "\<dots> = 0"
    by (simp add: cellRange_def)
  finally show ?thesis .
qed

section \<open>Which velocities the integrator reads\<close>

text \<open>
  Claim C1 (the source departs from it in the brute-force step). The claim: in every
  strategy the integrator reads the velocity buffer that the evaluator of the same step
  has just written. \<^verbatim>\<open>stepSimulationScatteredGrid\<close> and
  \<^verbatim>\<open>stepSimulationCoherentGrid\<close> do (\<open>scattered_positions\<close>, \<open>coherent_positions\<close>);
  \<^verbatim>\<open>stepSimulationNaive\<close> gives \<^verbatim>\<open>kernUpdatePos\<close> the buffer \<open>dev_vel1\<close>, which the
  evaluator read (\<open>naive_positions\<close>). For two boids at rest one unit apart and
  \<open>dt = 1\<close> the evaluator writes the velocities \<open>(-0.09, 0, 0)\<close> and \<open>(0.09, 0, 0)\<close>,
  the positions stay where they were, and the positions integrated with the written
  velocities are different ones. The scattered step on the same state moves each boid
  by the velocity it has just written.
\<close>

theorem naive_integrates_previous_velocities:
  "dev_vel1 (stepSimulationNaive 1 pairState) = [Vec3 (- 9 / 100) 0 0, Vec3 (9 / 100) 0 0] \<and>
   dev_pos (stepSimulationNaive 1 pairState) = [Vec3 0 100 100, Vec3 1 100 100] \<and>
   kernUpdatePos 2 1 (dev_pos pairState) (dev_vel1 (stepSimulationNaive 1 pairState)) =
     [Vec3 (- 9 / 100) 100 100, Vec3 (109 / 100) 100 100] \<and>
   map_option (\<lambda>s. (dev_vel1 s, dev_pos s)) (stepSimulationScatteredGrid 1 pairState) =
     Some ([Vec3 (- 19 / 100) 0 0, Vec3 (19 / 100) 0 0],
           [Vec3 (- 19 / 100) 100 100, Vec3 (119 / 100) 100 100])"
  by (simp add: pair_naive_step pair_scattered_step kernUpdatePos_2 vscale_def plus_vec3_def
      zero_vec3_def wrapPos_def scene_scale_def)

section \<open>Neighbour cells of the grid kernels\<close>

text \<open>
  Claim C2 (the source departs from it). The claim asks for one adjacent cell per axis,
  chosen for each axis on its own. At the boid position \<open>(-53, -58, -53)\<close>, whose
  fractions in its cell \<open>(5, 5, 5)\<close> are \<open>0.7\<close>, \<open>0.2\<close> and \<open>0.7\<close>, the choice per
  axis is the upper neighbour in \<open>x\<close>, the lower in \<open>y\<close> and the upper in \<open>z\<close>.
  \<^verbatim>\<open>calculateBoidNeighborCells\<close> takes the lower neighbour in \<open>x\<close> and the upper in
  \<open>y\<close>: its tests of the \<open>y\<close> and \<open>z\<close> fractions assign \<^verbatim>\<open>x\<close>
  (\<open>calculateBoidNeighborCells_signs\<close>). Cells outside the lattice are marked \<open>-1\<close> in
  both.
\<close>

theorem neighbor_cells_share_one_sign:
  "calculateBoidNeighborCells
     (vscale (Vec3 (- 53) (- 58) (- 53) - gridMinimum) gridInverseCellWidth) gridSideCount =
     [2535, 2534, 2557, 3019, 2556, 3041, 3018, 3040] \<and>
   neighborCellsPerAxis
     (vscale (Vec3 (- 53) (- 58) (- 53) - gridMinimum) gridInverseCellWidth) gridSideCount =
     [2535, 2536, 2513, 3019, 2514, 2997, 3020, 2998]"
  by (simp add: calculateBoidNeighborCells_def neighborCellsPerAxis_def grid_values vscale_def
      minus_vec3_def to_ivec3_def to_vec3_def trunc_def ivec3_add_def gridIndex3Dto1D_def Let_def)

section \<open>The ranges of the boundary tables\<close>

text \<open>
  Claim C3 (the source departs from it). The claim: after the boundary-table build the
  ranges \<open>[start, end]\<close> of the populated cells add up to \<open>N\<close>, for every \<open>N \<ge> 1\<close>.
  For one boid and tables that hold \<open>-1\<close> throughout, the build stores \<open>start = 0\<close>
  for the boid's cell 5577 and leaves its end at \<open>-1\<close>: the test for the last entry
  asks for \<open>i > 0\<close>, so the only thread writes no end. The total is 0, not 1. (For two
  boids and a range left in a cell that the reset does not reach the total is 4:
  \<open>pair_range_total\<close>. Where \<open>N \<ge> 2\<close> and the entries from \<open>numObjects\<close> on hold \<open>-1\<close>,
  the total is \<open>N\<close>: \<open>tables_total_clean\<close>.)
\<close>

theorem lone_boid_range_total:
  "numObjects loneState = 1 \<and>
   map_option (\<lambda>s. (dev_gridCellStartIndices s ! 5577, dev_gridCellEndIndices s ! 5577,
                     rangeTotal (dev_gridCellStartIndices s) (dev_gridCellEndIndices s)))
     (stageReset (stageIndices loneState) \<bind> stageCellStartEnd) = Some (0, - 1, 0)"
  unfolding lone_tables
  by (simp add: lone_range_total_eval)

section \<open>The reset of the boundary tables\<close>

text \<open>
  Claim C4 (the source departs from it). The claim: before the build every entry of both
  tables, all \<open>gridCellCount\<close> of them, is \<open>-1\<close>. Both grid steps launch
  \<^verbatim>\<open>kernResetIntBuffer\<close> with \<^verbatim>\<open>numObjects\<close> as the number of entries, so the entries
  from \<^verbatim>\<open>numObjects\<close> on keep what they held (\<open>stageReset_keeps\<close>). With two boids
  and 10648 cells, the entries 0 and 1 of cell 10636 are still in the tables after the
  reset, where the scattered step runs it and where the coherent step runs it.
\<close>

theorem reset_leaves_stale_entries:
  "numObjects pairState = 2 \<and> gridCellCount = 10648 \<and>
   dev_gridCellStartIndices pairState ! 10636 = 0 \<and>
   dev_gridCellEndIndices pairState ! 10636 = 1 \<and>
   map_option (\<lambda>s. (dev_gridCellStartIndices s ! 10636, dev_gridCellEndIndices s ! 10636))
     (stageReset (stageIndices pairState)) = Some (0, 1) \<and>
   map_option (\<lambda>s. (dev_gridCellStartIndices s ! 10636, dev_gridCellEndIndices s ! 10636))
     (stageReset pairState) = Some (0, 1)"
  by (simp add: grid_values pair_reset pair_coherent_reset stale_nth)

section \<open>Brute force against the scattered grid\<close>

text \<open>
  Claim C5 (the source departs from it). The claim: where every neighbour of every boid
  lies in the candidate cells of the grid kernels, the brute-force and the scattered
  step compute the same velocities. In \<open>pairState\<close> the two boids share the cell 10637,
  the first candidate cell of each. The brute-force step computes \<open>(-0.09, 0, 0)\<close> and
  \<open>(0.09, 0, 0)\<close>, the scattered step \<open>(-0.19, 0, 0)\<close> and \<open>(0.19, 0, 0)\<close>, for every
  \<open>dt\<close>: the second candidate cell 10636 holds no boid in this step, but its table
  entries, which the reset did not reach, still give the range \<open>0..1\<close>, and the boids
  of that range are visited a second time. (Where the reset did reach an empty candidate
  cell, the loop from \<open>start = -1\<close> to \<open>end = -1\<close> runs once and reads
  \<open>particleArrayIndices[-1]\<close>: \<open>cross_scattered_faults\<close>.)
\<close>

theorem scattered_differs_from_brute_force:
  "cellIndex gridSideCount gridMinimum gridInverseCellWidth (Vec3 0 100 100) = 10637 \<and>
   cellIndex gridSideCount gridMinimum gridInverseCellWidth (Vec3 1 100 100) = 10637 \<and>
   hd (calculateBoidNeighborCells
         (vscale (Vec3 0 100 100 - gridMinimum) gridInverseCellWidth) gridSideCount) = 10637 \<and>
   hd (calculateBoidNeighborCells
         (vscale (Vec3 1 100 100 - gridMinimum) gridInverseCellWidth) gridSideCount) = 10637 \<and>
   dev_vel1 (stepSimulationNaive dt pairState) = [Vec3 (- 9 / 100) 0 0, Vec3 (9 / 100) 0 0] \<and>
   map_option dev_vel1 (stepSimulationScatteredGrid dt pairState) =
     Some [Vec3 (- 19 / 100) 0 0, Vec3 (19 / 100) 0 0]"
  by (simp add: grid_values pair_cells pair_naive_step pair_scattered_step vscale_def
      minus_vec3_def pair_neighbors)

section \<open>Brute-force evaluation of the rules\<close>




section \<open>Integrator: wrap into the scene\<close>



section \<open>The speed-limit message\<close>

text \<open>
  Claim C8 (amended). The test that guards the message reads the vector after the speed
  limit has been applied, not before: the message is printed exactly when a component of
  the limited vector exceeds \<open>maxSpeed\<close>, and over exact arithmetic that never happens,
  whatever the components were before the limit. The velocity stored is the limited
  vector, and a launch of the brute-force kernel, or a launch of the scattered kernel that
  completes, leaves the printed text as it was.
\<close>

theorem speed_warning_reads_limited_vector:
  "snd (limitSpeed v) =
     (vx (limited v) > maxSpeed \<or> vy (limited v) > maxSpeed \<or> vz (limited v) > maxSpeed) \<and>
   snd (limitSpeed v) = False \<and>
   fst (limitSpeed v) = limited v \<and>
   snd (kernUpdateVelocityBruteForce N pos vel1 (vel2, out)) = out \<and>
   (\<forall>written. kernUpdateVelNeighborSearchScattered N gridResolution gridMin inverseCellWidth
        cellWidth starts ends particleArrayIndices pos vel1 (vel2, out) = Some written \<longrightarrow>
      snd written = out)"
proof -
  have "snd (limitSpeed v) =
     (vx (limited v) > maxSpeed \<or> vy (limited v) > maxSpeed \<or> vz (limited v) > maxSpeed)"
    using fst_limitSpeed [of v] by (simp add: limitSpeed_def Let_def)
  then show ?thesis
    using kernUpdateVelNeighborSearchScattered_console
    by (simp add: limitSpeed_silent fst_limitSpeed kernUpdateVelocityBruteForce_console)
qed

text \<open>
  The theorem at a launch of the scattered kernel that completes.
\<close>

theorem speed_warning_reads_limited_vector_witness:
  "kernUpdateVelNeighborSearchScattered 2 22 (Vec3 (- 110) (- 110) (- 110)) (1 / 10) 10
     (staleStarts[10637 := 0]) (staleEnds[10637 := 1]) [0, 1]
     [Vec3 0 100 100, Vec3 1 100 100] [0, 0] ([0, 0], []) =
     Some ([Vec3 (- 19 / 100) 0 0, Vec3 (19 / 100) 0 0], []) \<and>
   snd ([Vec3 (- 19 / 100) 0 0, Vec3 (19 / 100) 0 0], [] :: string list) = []"
proof -
  have run: "kernUpdateVelNeighborSearchScattered 2 22 (Vec3 (- 110) (- 110) (- 110)) (1 / 10) 10
     (staleStarts[10637 := 0]) (staleEnds[10637 := 1]) [0, 1]
     [Vec3 0 100 100, Vec3 1 100 100] [0, 0] ([0, 0], []) =
     Some ([Vec3 (- 19 / 100) 0 0, Vec3 (19 / 100) 0 0], [])"
    by (rule pair_scattered_velocities) (simp_all add: stale_nth)
  show ?thesis
    using run speed_warning_reads_limited_vector [of 0 2 "[Vec3 0 100 100, Vec3 1 100 100]"
        "[0, 0]" "[0, 0]" "[]" 22 "Vec3 (- 110) (- 110) (- 110)" "1 / 10" 10
        "staleStarts[10637 := 0]" "staleEnds[10637 := 1]" "[0, 1]"]
    by simp
qed

text \<open>
  The claim as stated fails: for one boid with velocity \<open>(2, 0, 0)\<close> a component of the
  computed velocity exceeds \<open>maxSpeed\<close> before the limit, and the kernel stores
  \<open>(1, 0, 0)\<close> and prints nothing.
\<close>

theorem speed_warning_counterexample:
  "vx (computeVelocityChange 1 0 [Vec3 0 0 0] [Vec3 2 0 0] + [Vec3 2 0 0] ! 0) > maxSpeed \<and>
   kernUpdateVelocityBruteForce 1 [Vec3 0 0 0] [Vec3 2 0 0] ([Vec3 0 0 0], []) =
     ([Vec3 1 0 0], [])"
  by (simp add: kernUpdateVelocityBruteForce_fold computeVelocityChange_def rules0_def
      ruleResult_def Let_def vscale_def plus_vec3_def zero_vec3_def rule2Scale_def maxSpeed_def
      limitSpeed_def glm_length_def glm_dot_def glm_normalize_def report_def)

section \<open>A step with no time\<close>




section \<open>Grid labels stay inside the tables\<close>

text \<open>
  Claim C10. The grid that \<^verbatim>\<open>initSimulation\<close> derives has
  \<open>2 * (floor (scene_scale / gridCellWidth) + 1)\<close> cells per side and its minimum corner
  at \<open>- gridCellWidth * (floor (scene_scale / gridCellWidth) + 1)\<close> on each axis, which
  lies strictly below \<open>- scene_scale\<close> while the opposite corner lies strictly above
  \<open>scene_scale\<close>; and for every boid whose position has all coordinates in
  \<open>[- scene_scale, scene_scale]\<close>, the label that \<^verbatim>\<open>kernComputeIndices\<close> stores is at
  least 0 and below \<open>gridCellCount\<close>, the extent of the two tables.
\<close>

theorem kernComputeIndices_in_table:
  assumes "i < N" and "length pos = N" and "length indices = N" and "length gridIndices = N"
    and "inScene (pos ! i)"
  shows "gridSideCount = 2 * (\<lfloor>scene_scale / gridCellWidth\<rfloor> + 1) \<and>
         gridCellCount = gridSideCount * gridSideCount * gridSideCount \<and>
         gridMinimum =
           (let m = - (gridCellWidth * real_of_int (\<lfloor>scene_scale / gridCellWidth\<rfloor> + 1))
            in Vec3 m m m) \<and>
         vx gridMinimum < - scene_scale \<and>
         scene_scale < vx gridMinimum + gridCellWidth * real_of_int gridSideCount \<and>
         (let cell = snd (kernComputeIndices N gridSideCount gridMinimum gridInverseCellWidth pos
                           (indices, gridIndices)) ! i
          in 0 \<le> cell \<and> cell < gridCellCount)"
proof -
  have grid: "gridSideCount = 2 * (\<lfloor>scene_scale / gridCellWidth\<rfloor> + 1)"
    "gridMinimum =
       (let m = - (gridCellWidth * real_of_int (\<lfloor>scene_scale / gridCellWidth\<rfloor> + 1))
        in Vec3 m m m)"
    "vx gridMinimum < - scene_scale"
    "scene_scale < vx gridMinimum + gridCellWidth * real_of_int gridSideCount"
    by (simp_all add: grid_values scene_scale_def Let_def)
  have "snd (kernComputeIndices N gridSideCount gridMinimum gridInverseCellWidth pos
               (indices, gridIndices)) ! i =
        cellIndex gridSideCount gridMinimum gridInverseCellWidth (pos ! i)"
    using assms by (simp add: kernComputeIndices_eq)
  then show ?thesis
    using grid cellIndex_in_table [OF assms(5)]
    by (simp add: Let_def gridCellCount_def)
qed

text \<open>
  The theorem at a boid in a corner region of the scene.
\<close>

theorem kernComputeIndices_in_table_witness:
  "(0::nat) < 1 \<and> length [Vec3 100 (- 100) 0] = 1 \<and> length [0::int] = 1 \<and>
   inScene ([Vec3 100 (- 100) 0] ! 0) \<and>
   snd (kernComputeIndices 1 gridSideCount gridMinimum gridInverseCellWidth [Vec3 100 (- 100) 0]
          ([0], [0])) ! 0 = 5367 \<and>
   (5367::int) < gridCellCount"
proof -
  have h: "(0::nat) < 1" "length [Vec3 100 (- 100) 0] = 1" "length [0::int] = 1"
    "length [0::int] = 1" "inScene ([Vec3 100 (- 100) 0] ! 0)"
    by (simp_all add: inScene_def scene_scale_def)
  have cell: "snd (kernComputeIndices 1 gridSideCount gridMinimum gridInverseCellWidth
                     [Vec3 100 (- 100) 0] ([0], [0])) ! 0 = 5367"
    by (simp add: kernComputeIndices_eq grid_values cellIndex_def to_ivec3_def vscale_def
        plus_vec3_def uminus_vec3_def trunc_def gridIndex3Dto1D_def Let_def)
  show ?thesis
    using h cell kernComputeIndices_in_table [OF h]
    by (simp add: Let_def)
qed

end
